theory Spec2Isabelle
  imports Complex_Main "HOL-Library.Option_ord" "HOL-Library.Sublist"
begin


section \<open>Python values shared by the scripts\<close>

text \<open>
  Strings are byte strings holding the UTF-8 encoding of the Python text, so the
  non-ASCII literals of the source are written out byte by byte. Exceptions are values
  of \<open>py_error\<close>, and a function that can raise returns \<open>py_error + 'a\<close>.
\<close>

datatype py_error = KeyError | TypeError | ValueError | StorageError

definition dict_get :: "('k \<rightharpoonup> 'v) \<Rightarrow> 'k \<Rightarrow> 'v \<Rightarrow> 'v" where
  \<comment> \<open>\<open>d.get(k, default)\<close>\<close>
  "dict_get d k dflt = (case d k of None \<Rightarrow> dflt | Some v \<Rightarrow> v)"

definition dict_item :: "('k \<rightharpoonup> 'v) \<Rightarrow> 'k \<Rightarrow> py_error + 'v" where
  \<comment> \<open>\<open>d[k]\<close>, which raises KeyError on a missing key\<close>
  "dict_item d k = (case d k of None \<Rightarrow> Inl KeyError | Some v \<Rightarrow> Inr v)"

definition str_truthy :: "string option \<Rightarrow> bool" where
  \<comment> \<open>truth value of a field that is absent, \<open>None\<close> or a string\<close>
  "str_truthy s = (case s of None \<Rightarrow> False | Some t \<Rightarrow> t \<noteq> [])"

function str_remove :: "string \<Rightarrow> string \<Rightarrow> string" where
  \<comment> \<open>\<open>s.replace(old, '')\<close> for a non-empty \<open>old\<close>: occurrences are found left to
     right and do not overlap\<close>
  "str_remove old [] = []"
| "str_remove old (c # cs) =
     (if old \<noteq> [] \<and> take (length old) (c # cs) = old
      then str_remove old (drop (length old) (c # cs))
      else c # str_remove old cs)"
  by pat_completeness auto
termination
  by (relation "measure (\<lambda>(old, s). length s)") auto

subsection \<open>Date and time\<close>

text \<open>
  A \<open>datetime\<close> is held as the number of microseconds its wall-clock reading lies after
  0001-01-01T00:00:00, with the UTC offset (in seconds) of an aware value and \<open>None\<close>
  for a naive one. The calendar fields are recovered by \<open>ord2ymd\<close>, the proleptic
  Gregorian conversion the standard library uses.
\<close>

record datetime =
  wall :: int
  tzoff :: "int option"

definition us_per_second :: int where "us_per_second = 1000000"
definition us_per_hour :: int where "us_per_hour = 3600 * 1000000"
definition us_per_day :: int where "us_per_day = 86400 * 1000000"

definition is_leap :: "int \<Rightarrow> bool" where
  "is_leap y = (y mod 4 = 0 \<and> (y mod 100 \<noteq> 0 \<or> y mod 400 = 0))"

definition days_in_month :: "int \<Rightarrow> int \<Rightarrow> int" where
  "days_in_month y m =
     (if m = 2 then (if is_leap y then 29 else 28)
      else if m = 4 \<or> m = 6 \<or> m = 9 \<or> m = 11 then 30 else 31)"

fun month_of_yday :: "int \<Rightarrow> nat \<Rightarrow> int \<Rightarrow> int \<Rightarrow> int \<times> int" where
  \<comment> \<open>walks the months of year \<open>y\<close>: \<open>n\<close> is the zero-based day left, \<open>k\<close> the months
     still to try\<close>
  "month_of_yday y 0 m n = (m, n + 1)"
| "month_of_yday y (Suc k) m n =
     (if n < days_in_month y m then (m, n + 1)
      else month_of_yday y k (m + 1) (n - days_in_month y m))"

definition ord2ymd :: "int \<Rightarrow> int \<times> int \<times> int" where
  \<comment> \<open>day number (1 = 0001-01-01) to (year, month, day)\<close>
  "ord2ymd ordinal =
     (let n0 = ordinal - 1;
          n400 = n0 div 146097; n1 = n0 mod 146097;
          n100 = n1 div 36524; n2 = n1 mod 36524;
          n4 = n2 div 1461; n3 = n2 mod 1461;
          ny = n3 div 365; n = n3 mod 365;
          year = n400 * 400 + 1 + n100 * 100 + n4 * 4 + ny
      in if ny = 4 \<or> n100 = 4 then (year - 1, 12, 31)
         else (let md = month_of_yday year 11 1 n in (year, fst md, snd md)))"

definition dt_year :: "datetime \<Rightarrow> int" where
  "dt_year d = fst (ord2ymd (wall d div us_per_day + 1))"
definition dt_month :: "datetime \<Rightarrow> int" where
  "dt_month d = fst (snd (ord2ymd (wall d div us_per_day + 1)))"
definition dt_day :: "datetime \<Rightarrow> int" where
  "dt_day d = snd (snd (ord2ymd (wall d div us_per_day + 1)))"
definition dt_hour :: "datetime \<Rightarrow> int" where
  "dt_hour d = (wall d mod us_per_day) div us_per_hour"
definition dt_minute :: "datetime \<Rightarrow> int" where
  "dt_minute d = (wall d mod us_per_hour) div (60 * us_per_second)"
definition dt_second :: "datetime \<Rightarrow> int" where
  "dt_second d = (wall d mod (60 * us_per_second)) div us_per_second"

definition digit :: "int \<Rightarrow> char" where
  \<comment> \<open>the decimal digit of a number between 0 and 9\<close>
  "digit n = ''0123456789'' ! nat n"

definition pad2 :: "int \<Rightarrow> string" where
  "pad2 n = [digit (n div 10 mod 10), digit (n mod 10)]"

definition pad4 :: "int \<Rightarrow> string" where
  "pad4 n = [digit (n div 1000 mod 10), digit (n div 100 mod 10),
             digit (n div 10 mod 10), digit (n mod 10)]"

definition strftime_dmY :: "datetime \<Rightarrow> string" where
  \<comment> \<open>\<open>strftime('%d%m%Y')\<close>\<close>
  "strftime_dmY d = pad2 (dt_day d) @ pad2 (dt_month d) @ pad4 (dt_year d)"

definition strftime_HMS :: "datetime \<Rightarrow> string" where
  \<comment> \<open>\<open>strftime('%H%M%S')\<close>\<close>
  "strftime_HMS d = pad2 (dt_hour d) @ pad2 (dt_minute d) @ pad2 (dt_second d)"

definition strftime_Ymd_HMS :: "datetime \<Rightarrow> string" where
  \<comment> \<open>\<open>strftime('%Y%m%d_%H%M%S')\<close>\<close>
  "strftime_Ymd_HMS d =
     pad4 (dt_year d) @ pad2 (dt_month d) @ pad2 (dt_day d) @ ''_'' @ strftime_HMS d"

definition replace_closed_hour :: "datetime \<Rightarrow> datetime" where
  \<comment> \<open>\<open>dt.replace(minute=0, second=0, microsecond=0)\<close>\<close>
  "replace_closed_hour d = d\<lparr>wall := wall d - wall d mod us_per_hour\<rparr>"

definition astimezone :: "int \<Rightarrow> int \<Rightarrow> datetime \<Rightarrow> datetime" where
  \<comment> \<open>\<open>dt.astimezone(tz)\<close> for a fixed-offset \<open>tz\<close>; a naive value is read in the
     system's local zone, whose offset \<open>sys_off\<close> comes from the environment\<close>
  "astimezone sys_off tz_off d =
     (let src = (case tzoff d of None \<Rightarrow> sys_off | Some off \<Rightarrow> off)
      in \<lparr>wall = wall d + (tz_off - src) * us_per_second, tzoff = Some tz_off\<rparr>)"

definition dt_sub :: "datetime \<Rightarrow> datetime \<Rightarrow> py_error + int" where
  \<comment> \<open>\<open>a - b\<close> in microseconds; mixing naive and aware values raises TypeError\<close>
  "dt_sub a b =
     (case (tzoff a, tzoff b) of
        (None, None) \<Rightarrow> Inr (wall a - wall b)
      | (Some oa, Some ob) \<Rightarrow>
          Inr ((wall a - oa * us_per_second) - (wall b - ob * us_per_second))
      | _ \<Rightarrow> Inl TypeError)"

definition dt_add_days :: "datetime \<Rightarrow> int \<Rightarrow> datetime" where
  \<comment> \<open>\<open>dt + timedelta(days=n)\<close>\<close>
  "dt_add_days d n = d\<lparr>wall := wall d + n * us_per_day\<rparr>"

definition CAMPO_GRANDE_TZ :: int where
  \<comment> \<open>\<open>timezone(timedelta(hours=-4))\<close>, in seconds\<close>
  "CAMPO_GRANDE_TZ = - 4 * 3600"

section \<open>The deviation detector (cloud-functions/deviation-detector/main.py)\<close>

subsection \<open>Data\<close>

text \<open>
  A row of the active-sessions query and the session dictionary built from it. The
  columns may be NULL, hence the options.
\<close>

record row =
  row_vehicle_plate :: string
  row_vehicle_id :: string
  row_poi_name :: string
  row_poi_group :: "string option"
  row_filial :: string
  row_entry_timestamp :: "datetime option"
  row_exit_timestamp :: "datetime option"
  row_duration_hours :: "int option"

record session =
  vehicle_plate :: string
  vehicle_id :: string
  poi_name :: string
  poi_group :: "string option"
  filial :: string
  entry_timestamp :: "datetime option"
  exit_timestamp :: "datetime option"
  duration_hours :: rat
  session_key :: string

text \<open>
  The stored \<open>last_alert_sent\<close> field as \<open>_should_escalate\<close> sees it: absent or
  empty; a timestamp object, which is what \<open>_update_alert_delivery_state\<close> of the alert
  manager stores (\<open>'last_alert_sent': datetime.now()\<close>) and on which
  \<open>.replace('Z', '+00:00')\<close> raises TypeError; another value on which \<open>replace\<close> or
  \<open>fromisoformat\<close> raises; or an ISO string, held as the datetime it parses to.
\<close>

datatype last_alert = LA_Missing | LA_Datetime datetime | LA_Unparsed | LA_Iso datetime

record escalation_entry =
  e_level :: string
  e_timestamp :: datetime
  e_duration_hours :: int
  e_alert_sent :: bool

record alert_state =
  st_filial :: string
  st_poi_name :: string
  st_poi_normalized :: string
  st_poi_group :: string
  st_vehicle_plate :: string
  st_vehicle_id :: string
  current_level :: "string option"
  state :: string
  first_detection :: datetime
  last_updated :: datetime
  last_alert_sent :: last_alert
  escalation_history :: "escalation_entry list"
  alert_count :: int
  last_alert_title :: string
  consecutive_hours :: int
  threshold_hours :: "string \<rightharpoonup> rat"
  st_entry_timestamp :: "datetime option"
  actual_duration_hours :: rat
  deviation_magnitude :: rat
  created_at :: datetime
  updated_at :: datetime
  ttl :: datetime

record deviation =
  deviation_id :: string
  d_filial :: string
  d_poi_name :: string
  d_poi_normalized :: string
  d_vehicle_plate :: string
  d_vehicle_id :: string
  d_current_level :: string
  d_duration_hours :: rat
  threshold_breached :: rat
  detection_timestamp :: datetime
  d_entry_timestamp :: "datetime option"
  previous_state :: "alert_state option"
  confidence_score :: rat

type_synonym thresholds = "string \<rightharpoonup> rat"
type_synonym alert_states = "string \<rightharpoonup> alert_state"

subsection \<open>Operations\<close>

definition special_chars :: "string list" where
  \<comment> \<open>the first entry is the two code points U+00C2 U+00BF of the source, in UTF-8\<close>
  "special_chars =
     [[CHR 0xC3, CHR 0x82, CHR 0xC2, CHR 0xBF], ''?'', ''-'', ''.'', ''/'', [CHR 0x5C],
      ''('', '')'', ''['', '']'']"

definition normalize_poi_name :: "string \<Rightarrow> string" where
  "normalize_poi_name poi = foldl (\<lambda>normalized c. str_remove c normalized)
     (str_remove '' '' poi) special_chars"

definition session_of_row :: "row \<Rightarrow> session" where
  \<comment> \<open>the dictionary built per row in \<open>_get_active_poi_sessions\<close>\<close>
  "session_of_row r =
     \<lparr>vehicle_plate = row_vehicle_plate r,
      vehicle_id = row_vehicle_id r,
      poi_name = row_poi_name r,
      poi_group = (if str_truthy (row_poi_group r) then row_poi_group r else Some ''Unknown''),
      filial = row_filial r,
      entry_timestamp = row_entry_timestamp r,
      exit_timestamp = row_exit_timestamp r,
      duration_hours = (case row_duration_hours r of None \<Rightarrow> 0 | Some h \<Rightarrow> of_int h),
      session_key = row_filial r @ ''_'' @ normalize_poi_name (row_poi_name r) @ ''_''
                    @ row_vehicle_plate r\<rparr>"

definition get_current_alert_states :: "py_error + alert_states \<Rightarrow> alert_states" where
  \<comment> \<open>the argument is what the Firestore query gives: an exception, or the documents of
     the collection, of which those with \<open>state == 'active'\<close> are kept\<close>
  "get_current_alert_states rd =
     (case rd of
        Inl e \<Rightarrow> Map.empty
      | Inr docs \<Rightarrow>
          (\<lambda>k. case docs k of
                 None \<Rightarrow> None
               | Some d \<Rightarrow> if state d = ''active'' then Some d else None))"

definition default_thresholds :: thresholds where
  "default_thresholds = [''N1'' \<mapsto> 2, ''N2'' \<mapsto> 4, ''N3'' \<mapsto> 8, ''N4'' \<mapsto> 12]"

record poi_configuration =
  cfg_poi_name :: "string option"
  cfg_escalation_hours :: "thresholds option"

definition get_poi_thresholds :: "py_error + poi_configuration list \<Rightarrow> (string \<rightharpoonup> thresholds)" where
  \<comment> \<open>the argument is what streaming the \<open>poi_configurations\<close> collection gives: an
     exception, after which the result is empty, or its documents; \<open>cfg_escalation_hours\<close>
     is \<open>None\<close> where the document has no \<open>escalation_hours\<close>\<close>
  "get_poi_thresholds rd =
     (case rd of
        Inl e \<Rightarrow> Map.empty
      | Inr docs \<Rightarrow>
          foldl (\<lambda>th d.
                   if str_truthy (cfg_poi_name d)
                   then th(the (cfg_poi_name d) \<mapsto>
                          (case cfg_escalation_hours d of
                             None \<Rightarrow> default_thresholds
                           | Some hours \<Rightarrow> hours))
                   else th)
            Map.empty docs)"

definition calculate_alert_level :: "rat \<Rightarrow> thresholds \<Rightarrow> string option" where
  "calculate_alert_level dur th =
     (if dur \<ge> dict_get th ''N4'' 12 then Some ''N4''
      else if dur \<ge> dict_get th ''N3'' 8 then Some ''N3''
      else if dur \<ge> dict_get th ''N2'' 4 then Some ''N2''
      else if dur \<ge> dict_get th ''N1'' 2 then Some ''N1''
      else None)"

definition level_hierarchy :: "string \<rightharpoonup> nat" where
  "level_hierarchy = [''N1'' \<mapsto> 1, ''N2'' \<mapsto> 2, ''N3'' \<mapsto> 3, ''N4'' \<mapsto> 4]"

definition hours_between :: "datetime \<Rightarrow> datetime \<Rightarrow> py_error + rat" where
  \<comment> \<open>\<open>(a - b).total_seconds() / 3600\<close>\<close>
  "hours_between a b =
     (case dt_sub a b of Inl e \<Rightarrow> Inl e | Inr us \<Rightarrow> Inr (of_int us / of_int us_per_hour))"

definition realert_rule :: "string \<Rightarrow> rat \<Rightarrow> bool" where
  \<comment> \<open>the \<open>if\<close>/\<open>elif\<close> chain inside the \<open>try\<close> of \<open>_should_escalate\<close>\<close>
  "realert_rule new_level hours_since_last_alert =
     (if new_level = ''N1'' \<and> hours_since_last_alert \<ge> 4 then True
      else if new_level = ''N2'' \<and> hours_since_last_alert \<ge> 2 then True
      else if new_level \<in> set [''N3'', ''N4''] \<and> hours_since_last_alert \<ge> 1 then True
      else False)"

definition should_escalate :: "string \<Rightarrow> alert_state option \<Rightarrow> datetime \<Rightarrow> py_error + bool" where
  "should_escalate new_level current_state detection =
     (case current_state of
        None \<Rightarrow> Inr True
      | Some st \<Rightarrow>
          if \<not> str_truthy (current_level st) then Inr True
          else
            (case dict_item level_hierarchy new_level of
               Inl e \<Rightarrow> Inl e
             | Inr hn \<Rightarrow>
                 (case dict_item level_hierarchy (the (current_level st)) of
                    Inl e \<Rightarrow> Inl e
                  | Inr hc \<Rightarrow>
                      if hn > hc then Inr True
                      else if Some new_level = current_level st then
                        (case last_alert_sent st of
                           LA_Missing \<Rightarrow> Inr False
                         | LA_Datetime stored \<Rightarrow> Inr True
                         | LA_Unparsed \<Rightarrow> Inr True
                         | LA_Iso last_alert_dt \<Rightarrow>
                             (case hours_between detection last_alert_dt of
                                Inl e \<Rightarrow> Inr True
                              | Inr h \<Rightarrow> Inr (realert_rule new_level h)))
                      else Inr False)))"

definition calculate_confidence_score :: "session \<Rightarrow> alert_state option \<Rightarrow> rat" where
  "calculate_confidence_score s current_state =
     (let score0 = (1::rat);
          score1 = (if entry_timestamp s = None then score0 * (7 / 10) else score0);
          score2 = (if \<not> str_truthy (poi_group s) \<or> poi_group s = Some ''Unknown''
                    then score1 * (9 / 10) else score1);
          score3 = (case current_state of
                      None \<Rightarrow> score2
                    | Some st \<Rightarrow>
                        if length (escalation_history st) > 1 then score2 * (11 / 10)
                        else score2)
      in min score3 1)"

definition analyze_session_for_deviation ::
  "session \<Rightarrow> alert_states \<Rightarrow> (string \<rightharpoonup> thresholds) \<Rightarrow> datetime
     \<Rightarrow> py_error + deviation option" where
  "analyze_session_for_deviation s current_states poi_thresholds detection =
     (let th = dict_get poi_thresholds (poi_name s) default_thresholds
      in case calculate_alert_level (duration_hours s) th of
           None \<Rightarrow> Inr None
         | Some lvl \<Rightarrow>
             (let current_state = current_states (session_key s)
              in case should_escalate lvl current_state detection of
                   Inl e \<Rightarrow> Inl e
                 | Inr False \<Rightarrow> Inr None
                 | Inr True \<Rightarrow>
                     (case dict_item th lvl of
                        Inl e \<Rightarrow> Inl e
                      | Inr breached \<Rightarrow>
                          Inr (Some
                            \<lparr>deviation_id = session_key s @ ''_'' @ lvl @ ''_''
                                             @ strftime_Ymd_HMS detection,
                             d_filial = filial s,
                             d_poi_name = poi_name s,
                             d_poi_normalized = normalize_poi_name (poi_name s),
                             d_vehicle_plate = vehicle_plate s,
                             d_vehicle_id = vehicle_id s,
                             d_current_level = lvl,
                             d_duration_hours = duration_hours s,
                             threshold_breached = breached,
                             detection_timestamp = detection,
                             d_entry_timestamp = entry_timestamp s,
                             previous_state = current_state,
                             confidence_score =
                               calculate_confidence_score s current_state\<rparr>))))"

fun detect_loop ::
  "session list \<Rightarrow> alert_states \<Rightarrow> (string \<rightharpoonup> thresholds) \<Rightarrow> datetime \<Rightarrow> deviation list" where
  \<comment> \<open>the \<open>for\<close> loop of \<open>detect_deviations\<close>: a session whose analysis raises is
     logged and skipped\<close>
  "detect_loop [] cs pt det = []"
| "detect_loop (s # ss) cs pt det =
     (case analyze_session_for_deviation s cs pt det of
        Inr (Some d) \<Rightarrow> d # detect_loop ss cs pt det
      | _ \<Rightarrow> detect_loop ss cs pt det)"

definition generate_alert_title :: "int \<Rightarrow> deviation \<Rightarrow> string" where
  \<comment> \<open>\<open>sys_off\<close> is the UTC offset of the system's local zone, which \<open>astimezone\<close>
     applies to a naive detection timestamp\<close>
  "generate_alert_title sys_off d =
     (let closed_hour = replace_closed_hour (detection_timestamp d);
          local_time = astimezone sys_off CAMPO_GRANDE_TZ closed_hour;
          date_str = strftime_dmY local_time;
          time_str = strftime_HMS local_time
      in d_filial d @ ''_'' @ d_poi_normalized d @ ''_'' @ d_current_level d @ ''_''
         @ date_str @ ''_'' @ time_str)"

definition py_int :: "rat \<Rightarrow> int" where
  \<comment> \<open>\<open>int(x)\<close>: truncation towards zero\<close>
  "py_int x = (if x \<ge> 0 then \<lfloor>x\<rfloor> else \<lceil>x\<rceil>)"

definition update_alert_state :: "int \<Rightarrow> deviation \<Rightarrow> alert_states \<Rightarrow> alert_states" where
  "update_alert_state sys_off d docs =
     (let key = d_filial d @ ''_'' @ d_poi_normalized d @ ''_'' @ d_vehicle_plate d;
          escalation_entry =
            \<lparr>e_level = d_current_level d,
             e_timestamp = detection_timestamp d,
             e_duration_hours = py_int (d_duration_hours d),
             e_alert_sent = False\<rparr>
      in case docs key of
           Some current_data \<Rightarrow>
             docs(key \<mapsto> current_data
               \<lparr>current_level := Some (d_current_level d),
                last_updated := detection_timestamp d,
                escalation_history := escalation_history current_data @ [escalation_entry],
                alert_count := alert_count current_data + 1,
                consecutive_hours := py_int (d_duration_hours d),
                last_alert_title := generate_alert_title sys_off d,
                actual_duration_hours := d_duration_hours d,
                deviation_magnitude := d_duration_hours d - threshold_breached d\<rparr>)
         | None \<Rightarrow>
             docs(key \<mapsto>
               \<lparr>st_filial = d_filial d,
                st_poi_name = d_poi_name d,
                st_poi_normalized = d_poi_normalized d,
                st_poi_group = ''Unknown'',
                st_vehicle_plate = d_vehicle_plate d,
                st_vehicle_id = d_vehicle_id d,
                current_level = Some (d_current_level d),
                state = ''active'',
                first_detection = detection_timestamp d,
                last_updated = detection_timestamp d,
                last_alert_sent = LA_Missing,
                escalation_history = [escalation_entry],
                alert_count = 1,
                last_alert_title = generate_alert_title sys_off d,
                consecutive_hours = py_int (d_duration_hours d),
                threshold_hours = default_thresholds,
                st_entry_timestamp = d_entry_timestamp d,
                actual_duration_hours = d_duration_hours d,
                deviation_magnitude = d_duration_hours d - threshold_breached d,
                created_at = detection_timestamp d,
                updated_at = detection_timestamp d,
                ttl = dt_add_days (detection_timestamp d) 7\<rparr>))"

definition store_deviation ::
  "(deviation \<Rightarrow> bool) \<Rightarrow> int \<Rightarrow> deviation \<Rightarrow> alert_states \<Rightarrow> alert_states" where
  \<comment> \<open>\<open>write_ok d\<close> tells whether the warehouse load and the document write for \<open>d\<close>
     go through; a failed write is logged and leaves the document as it was\<close>
  "store_deviation write_ok sys_off d docs =
     (if write_ok d then update_alert_state sys_off d docs else docs)"

fun store_loop ::
  "(deviation \<Rightarrow> bool) \<Rightarrow> int \<Rightarrow> deviation list \<Rightarrow> alert_states \<Rightarrow> alert_states" where
  "store_loop write_ok sys_off [] docs = docs"
| "store_loop write_ok sys_off (d # ds) docs =
     store_loop write_ok sys_off ds (store_deviation write_ok sys_off d docs)"

record cycle_env =
  env_rows :: "row list"
  env_read_fails :: bool
  env_poi_thresholds :: "string \<rightharpoonup> thresholds"
  env_detection :: datetime
  env_sys_off :: int
  env_write_ok :: "deviation \<Rightarrow> bool"

definition detect_deviations :: "cycle_env \<Rightarrow> alert_states \<Rightarrow> deviation list" where
  "detect_deviations env docs =
     (let active_sessions = map session_of_row (env_rows env);
          current_states = get_current_alert_states
            (if env_read_fails env then Inl StorageError else Inr docs)
      in detect_loop active_sessions current_states (env_poi_thresholds env)
           (env_detection env))"

definition detect_poi_deviations :: "cycle_env \<Rightarrow> alert_states \<Rightarrow> deviation list \<times> alert_states" where
  \<comment> \<open>one run of the cloud function: the alerts published and the documents afterwards\<close>
  "detect_poi_deviations env docs =
     (let deviations = detect_deviations env docs
      in (deviations, store_loop (env_write_ok env) (env_sys_off env) deviations docs))"

subsection \<open>Notions used to state the properties\<close>

definition effective_threshold :: "thresholds \<Rightarrow> string \<Rightarrow> rat" where
  \<comment> \<open>the threshold \<open>_calculate_alert_level\<close> compares with: the configured one, or
     the default of that level\<close>
  "effective_threshold th lvl = dict_get th lvl (dict_get default_thresholds lvl 0)"

definition n1_lowest :: "thresholds \<Rightarrow> bool" where
  \<comment> \<open>no level has a threshold below that of N1\<close>
  "n1_lowest th =
     (effective_threshold th ''N1'' \<le> effective_threshold th ''N2'' \<and>
      effective_threshold th ''N1'' \<le> effective_threshold th ''N3'' \<and>
      effective_threshold th ''N1'' \<le> effective_threshold th ''N4'')"

definition thresholds_for :: "(string \<rightharpoonup> thresholds) \<Rightarrow> string \<Rightarrow> thresholds" where
  "thresholds_for pt poi = dict_get pt poi default_thresholds"

definition level_rank :: "string option \<Rightarrow> nat" where
  \<comment> \<open>ordinal of a stored level, 0 when there is none\<close>
  "level_rank l = (case l of None \<Rightarrow> 0 | Some s \<Rightarrow> dict_get level_hierarchy s 0)"

definition deviation_key :: "deviation \<Rightarrow> string" where
  \<comment> \<open>the document a deviation is written to\<close>
  "deviation_key d = d_filial d @ ''_'' @ d_poi_normalized d @ ''_'' @ d_vehicle_plate d"

definition candidate_level :: "(string \<rightharpoonup> thresholds) \<Rightarrow> session \<Rightarrow> string option" where
  \<comment> \<open>the level \<open>_analyze_session_for_deviation\<close> computes for a session\<close>
  "candidate_level pt s = calculate_alert_level (duration_hours s) (thresholds_for pt (poi_name s))"

definition cooldown :: "string \<Rightarrow> rat" where
  \<comment> \<open>re-alert cooldown in hours, as the specification lists it\<close>
  "cooldown lvl = (if lvl = ''N1'' then 4 else if lvl = ''N2'' then 2 else 1)"

definition spec_confidence :: "session \<Rightarrow> rat" where
  \<comment> \<open>the score as the specification words it: a baseline of 1.0 discounted by 0.7 for a
     missing entry timestamp and by 0.9 for an unmapped group, clamped to [0,1]\<close>
  "spec_confidence s =
     max 0 (min 1 (1 * (if entry_timestamp s = None then 7 / 10 else 1)
                     * (if \<not> str_truthy (poi_group s) \<or> poi_group s = Some ''Unknown''
                        then 9 / 10 else 1)))"

definition local_closed_hour :: "int \<Rightarrow> deviation \<Rightarrow> datetime" where
  \<comment> \<open>the closed hour of the detection, read in the Campo Grande zone\<close>
  "local_closed_hour sys_off d =
     astimezone sys_off CAMPO_GRANDE_TZ (replace_closed_hour (detection_timestamp d))"

definition stripped_chars :: "char list" where
  \<comment> \<open>the single characters \<open>normalize_poi_name\<close> removes: the space and
     \<open>? - . / ( ) [ ]\<close> and the backslash\<close>
  "stripped_chars = '' ?-./()[]'' @ [CHR 0x5C]"

definition whole_hours :: "int \<Rightarrow> datetime \<Rightarrow> bool" where
  \<comment> \<open>the detection time is read at an offset of whole hours\<close>
  "whole_hours sys_off d =
     (case tzoff d of None \<Rightarrow> sys_off mod 3600 = 0 | Some off \<Rightarrow> off mod 3600 = 0)"

section \<open>The SLA evaluator (scripts/pontos\_notaveis/sistema\_deteccao\_desvios\_enhanced.py)\<close>

definition Fabrica :: string where
  "Fabrica = ''F'' @ [CHR 0xC3, CHR 0xA1] @ ''brica''"

definition Manutencao :: string where
  "Manutencao = ''Manuten'' @ [CHR 0xC3, CHR 0xA7, CHR 0xC3, CHR 0xA3] @ ''o''"

definition Nao_Mapeado :: string where
  "Nao_Mapeado = ''N'' @ [CHR 0xC3, CHR 0xA3] @ ''o Mapeado''"


definition Manutencao_Geral_JSL_RRP :: string where
  \<comment> \<open>the POI whose name arrives with two U+00BF in place of the accented letters\<close>
  "Manutencao_Geral_JSL_RRP =
     ''Manuten'' @ [CHR 0xC2, CHR 0xBF, CHR 0xC2, CHR 0xBF] @ ''o Geral JSL RRP''"

definition mapeamento_poi_grupo :: "(string \<times> string) list" where
  "mapeamento_poi_grupo =
     [(''Oficina Central JSL'', Manutencao), (''Carregamento Fabrica'', Fabrica),
      (''FILA DESCARGA APT'', ''Terminal''), (''Descarga TAP'', ''Terminal''),
      (''PA Celulose'', ''Ponto Apoio''), (''CEMAVI'', Manutencao), (''JDIESEL'', Manutencao),
      (''MONTANINI'', Manutencao), (''PB Lopes'', Manutencao), (''PB LOPES SCANIA'', Manutencao),
      (''MS3 LAVA JATO'', Manutencao), (''ADEVAR'', Manutencao), (''REBUCCI'', Manutencao),
      (''FEISCAR'', Manutencao), (''LM RADIADORES'', Manutencao), (''ALBINO'', Manutencao),
      (''DIESELTRONIC'', Manutencao), (''Manutencao Celulose'', Manutencao),
      (''Descarga Inocencia'', ''Terminal''), (''Carregamento Fabrica RRP'', Fabrica),
      (''Manutencao JSL RRP'', Manutencao), (''Oficina JSL'', Manutencao),
      (Manutencao_Geral_JSL_RRP, Manutencao), (''PA AGUA CLARA'', ''Ponto Apoio'')]"

definition sla_limites :: "string \<rightharpoonup> (string \<rightharpoonup> int)" where
  "sla_limites =
     [''RRP'' \<mapsto> [Fabrica \<mapsto> 6, ''Terminal'' \<mapsto> 12, Manutencao \<mapsto> 12, ''Ponto Apoio'' \<mapsto> 6],
      ''TLS'' \<mapsto> [Fabrica \<mapsto> 5, ''Terminal'' \<mapsto> 5, Manutencao \<mapsto> 10, ''Ponto Apoio'' \<mapsto> 5]]"

definition pois_rrp :: "string list" where
  "pois_rrp =
     [''Manutencao JSL RRP'', ''Carregamento Fabrica RRP'', ''Buffer Frotas'',
      ''Abastecimento Frotas RRP'', ''Oficina JSL'', ''Posto Mutum'', ''Agua Clara'',
      ''PA AGUA CLARA'', ''Descarga Inocencia'', Manutencao_Geral_JSL_RRP]"

definition pois_tls :: "string list" where
  "pois_tls =
     [''Carregamento Fabrica'', ''AREA EXTERNA SUZANO'', ''POSTO DE ABASTECIMENTO'',
      ''Fila abastecimento posto'', ''PA Celulose'', ''Manutencao Celulose'', ''MONTANINI'',
      ''SELVIRIA'', ''FILA DESCARGA APT'', ''Descarga TAP'', ''Oficina Central JSL'',
      ''PB Lopes'', ''PB LOPES SCANIA'', ''MS3 LAVA JATO'', ''REBUCCI'', ''CEMAVI'',
      ''FEISCAR'', ''DIESELTRONIC'', ''LM RADIADORES'', ''ALBINO'', ''JDIESEL'', ''ADEVAR'']"

definition pois_filtrados :: "string set" where
  "pois_filtrados = set pois_rrp \<union> set pois_tls"

definition obter_filial_poi :: "string \<Rightarrow> string" where
  "obter_filial_poi nome =
     (if nome \<in> set pois_rrp then ''RRP''
      else if nome \<in> set pois_tls then ''TLS''
      else ''DESCONHECIDA'')"

definition sla_obter_grupo_poi :: "string \<Rightarrow> string" where
  \<comment> \<open>\<open>obter_grupo_poi\<close> of the SLA scripts: an exact lookup after the special case\<close>
  "sla_obter_grupo_poi nome =
     (if sublist ''Geral JSL RRP'' nome \<and> sublist ''Manuten'' nome then Manutencao
      else (case map_of mapeamento_poi_grupo nome of
              None \<Rightarrow> Nao_Mapeado
            | Some g \<Rightarrow> g))"

datatype date_field = DF_Empty | DF_Bad | DF_Iso datetime

record evento =
  fenceDescription :: string
  ev_status :: int
  vehiclePlate :: string
  dateInFence :: date_field
  pontoNotavelId :: "string option"

record veiculo =
  v_placa :: string
  v_poi :: string
  v_filial :: string
  v_grupo :: string
  v_entrada :: datetime
  tempo_permanencia_horas :: rat
  evento_id :: "string option"

definition janelas_grupo :: "string \<rightharpoonup> rat" where
  "janelas_grupo = [''Terminal'' \<mapsto> 24, Fabrica \<mapsto> 24, ''Ponto Apoio'' \<mapsto> 24, Manutencao \<mapsto> 72]"

definition processar_evento ::
  "int \<Rightarrow> (string \<rightharpoonup> rat) \<Rightarrow> datetime \<Rightarrow> evento \<Rightarrow> veiculo option" where
  \<comment> \<open>the body of the loop of \<open>processar_eventos_api\<close>: \<open>None\<close> where the source
     goes on to the next event. The zone is taken at its fixed offset of four hours.\<close>
  "processar_evento sys_off janelas agora_local ev =
     (if fenceDescription ev \<notin> pois_filtrados \<or> ev_status ev \<noteq> 1 then None
      else if vehiclePlate ev = [] then None
      else case dateInFence ev of
        DF_Empty \<Rightarrow> None
      | DF_Bad \<Rightarrow> None
      | DF_Iso dt_entrada \<Rightarrow>
          (let entrada_local = astimezone sys_off CAMPO_GRANDE_TZ dt_entrada
           in case hours_between agora_local entrada_local of
                Inl e \<Rightarrow> None
              | Inr tempo_permanencia \<Rightarrow>
                  (let fil = obter_filial_poi (fenceDescription ev);
                       grp = sla_obter_grupo_poi (fenceDescription ev)
                   in if grp = Nao_Mapeado then None
                      else if tempo_permanencia > dict_get janelas grp 24 then None
                      else Some \<lparr>v_placa = vehiclePlate ev, v_poi = fenceDescription ev,
                                 v_filial = fil, v_grupo = grp, v_entrada = entrada_local,
                                 tempo_permanencia_horas = tempo_permanencia,
                                 evento_id = pontoNotavelId ev\<rparr>)))"

definition processar_eventos_api ::
  "int \<Rightarrow> evento list \<Rightarrow> (string \<rightharpoonup> rat) \<Rightarrow> datetime \<Rightarrow> veiculo list" where
  "processar_eventos_api sys_off eventos janelas agora_local =
     List.map_filter (processar_evento sys_off janelas agora_local) eventos"

record desvio =
  dv_filial :: string
  dv_grupo :: string
  qtd_veiculos :: int
  limite_sla :: int
  excesso :: int
  dv_veiculos :: "veiculo list"
  timestamp_verificacao :: datetime

fun grupos_append :: "(string \<times> 'a list) list \<Rightarrow> string \<Rightarrow> 'a \<Rightarrow> (string \<times> 'a list) list" where
  \<comment> \<open>\<open>grupos[chave].append(v)\<close> on a \<open>defaultdict(list)\<close>, which keeps the keys in
     the order of their first use\<close>
  "grupos_append [] chave v = [(chave, [v])]"
| "grupos_append ((k, vs) # rest) chave v =
     (if k = chave then (k, vs @ [v]) # rest else (k, vs) # grupos_append rest chave v)"

definition chave_grupo :: "veiculo \<Rightarrow> string" where
  "chave_grupo v = v_filial v @ ''_'' @ v_grupo v"

definition agrupar_veiculos :: "veiculo list \<Rightarrow> (string \<times> veiculo list) list" where
  "agrupar_veiculos vs = foldl (\<lambda>grupos v. grupos_append grupos (chave_grupo v) v) [] vs"

definition split_underscore :: "string \<Rightarrow> py_error + string \<times> string" where
  \<comment> \<open>\<open>filial, grupo = chave.split('_', 1)\<close>; unpacking a single part raises\<close>
  "split_underscore s =
     (if CHR ''_'' \<in> set s
      then Inr (takeWhile (\<lambda>c. c \<noteq> CHR ''_'') s, drop 1 (dropWhile (\<lambda>c. c \<noteq> CHR ''_'') s))
      else Inl ValueError)"

definition limite_de :: "(string \<rightharpoonup> (string \<rightharpoonup> int)) \<Rightarrow> string \<Rightarrow> string \<Rightarrow> int option" where
  \<comment> \<open>\<open>sla_limites.get(filial, {}).get(grupo)\<close>\<close>
  "limite_de limites fil grp = dict_get limites fil Map.empty grp"

fun verificar_grupos ::
  "(string \<rightharpoonup> (string \<rightharpoonup> int)) \<Rightarrow> datetime \<Rightarrow> (string \<times> veiculo list) list
     \<Rightarrow> py_error + desvio list" where
  "verificar_grupos limites ts [] = Inr []"
| "verificar_grupos limites ts ((chave, vs) # rest) =
     (case split_underscore chave of
        Inl e \<Rightarrow> Inl e
      | Inr (fil, grp) \<Rightarrow>
          (case limite_de limites fil grp of
             None \<Rightarrow> verificar_grupos limites ts rest
           | Some limite \<Rightarrow>
               if int (length vs) > limite
               then (case verificar_grupos limites ts rest of
                       Inl e \<Rightarrow> Inl e
                     | Inr ds \<Rightarrow>
                         Inr (\<lparr>dv_filial = fil, dv_grupo = grp,
                               qtd_veiculos = int (length vs), limite_sla = limite,
                               excesso = int (length vs) - limite, dv_veiculos = vs,
                               timestamp_verificacao = ts\<rparr> # ds))
               else verificar_grupos limites ts rest))"

definition analisar_desvios_sla ::
  "(string \<rightharpoonup> (string \<rightharpoonup> int)) \<Rightarrow> veiculo list \<Rightarrow> datetime \<Rightarrow> py_error + desvio list" where
  "analisar_desvios_sla limites veiculos_ativos ts =
     verificar_grupos limites ts (agrupar_veiculos veiculos_ativos)"

definition veiculos_do_grupo :: "string \<Rightarrow> string \<Rightarrow> veiculo list \<Rightarrow> veiculo list" where
  \<comment> \<open>the open sessions of a (branch, group) pair\<close>
  "veiculos_do_grupo f g vs = filter (\<lambda>v. v_filial v = f \<and> v_grupo v = g) vs"

definition desvio_do_grupo ::
  "(string \<rightharpoonup> (string \<rightharpoonup> int)) \<Rightarrow> datetime \<Rightarrow> string \<Rightarrow> string \<Rightarrow> veiculo list \<Rightarrow> desvio list" where
  \<comment> \<open>what the evaluator reports for a pair whose open sessions are \<open>ws\<close>: nothing, or
     one deviation\<close>
  "desvio_do_grupo limites ts f g ws =
     (case limite_de limites f g of
        None \<Rightarrow> []
      | Some lm \<Rightarrow>
          if int (length ws) > lm
          then [\<lparr>dv_filial = f, dv_grupo = g, qtd_veiculos = int (length ws), limite_sla = lm,
                 excesso = int (length ws) - lm, dv_veiculos = ws, timestamp_verificacao = ts\<rparr>]
          else [])"

definition well_keyed :: "(string \<times> veiculo list) list \<Rightarrow> bool" where
  "well_keyed gs = (\<forall>(k, ws)\<in>set gs. \<exists>f g. k = f @ ''_'' @ g \<and> CHR ''_'' \<notin> set f)"

definition grupo_lista :: "(string \<times> 'a list) list \<Rightarrow> string \<Rightarrow> 'a list" where
  \<comment> \<open>the vehicles gathered under a key, none when the key is absent\<close>
  "grupo_lista gs k = (case map_of gs k of None \<Rightarrow> [] | Some ws \<Rightarrow> ws)"

section \<open>The report script (scripts/pontos\_notaveis/gerar\_relatorio\_pontos\_notaveis.py)\<close>

subsection \<open>Group of a POI\<close>






subsection \<open>Consolidation of consecutive events\<close>

text \<open>
  A date field of a processed event is a string: empty, or the local date
  \<open>dd/mm/YYYY HH:MM:SS\<close>, or whatever the API sent when it could not be formatted. It is
  held with the result of \<open>strptime\<close> on it: the seconds after 0001-01-01 00:00:00
  (\<open>datetime.min\<close>), or \<open>None\<close> where parsing raises. Rounding to two decimals is
  done by the language on floats; the functions take it as the parameter \<open>round2\<close>.
\<close>

record data_str =
  texto :: string
  lido :: "nat option"

record evento_processado =
  Filial :: string
  Placa_Veiculo :: string
  Descricao_POI :: string
  Grupo_POI :: string
  Data_Entrada :: data_str
  Data_Saida :: data_str
  Status :: string
  Duracao :: rat
  Data_Atualizacao :: data_str
  Customer_Child_Id :: string
  Vehicle_Id :: string
  Fence_Id :: string

definition parse_data :: "data_str \<Rightarrow> nat" where
  \<comment> \<open>the sort key of \<open>parse_data_entrada\<close> and \<open>parse_data_saida\<close>: an empty or
     unreadable date counts as \<open>datetime.min\<close>\<close>
  "parse_data d = (if texto d = [] then 0 else case lido d of None \<Rightarrow> 0 | Some n \<Rightarrow> n)"

definition parse_data_entrada :: "evento_processado \<Rightarrow> nat" where
  "parse_data_entrada e = parse_data (Data_Entrada e)"

definition parse_data_saida :: "evento_processado \<Rightarrow> nat" where
  "parse_data_saida e = parse_data (Data_Saida e)"

definition py_max :: "('a \<Rightarrow> nat) \<Rightarrow> 'a \<Rightarrow> 'a list \<Rightarrow> 'a" where
  \<comment> \<open>\<open>max(x # xs, key=key)\<close>: the first element with the greatest key\<close>
  "py_max key x xs = foldl (\<lambda>best y. if key y > key best then y else best) x xs"

definition py_min :: "('a \<Rightarrow> nat) \<Rightarrow> 'a \<Rightarrow> 'a list \<Rightarrow> 'a" where
  \<comment> \<open>\<open>min(x # xs, key=key)\<close>: the first element with the least key\<close>
  "py_min key x xs = foldl (\<lambda>best y. if key y < key best then y else best) x xs"

definition calcular_duracao_formatada :: "(rat \<Rightarrow> rat) \<Rightarrow> data_str \<Rightarrow> data_str \<Rightarrow> rat" where
  "calcular_duracao_formatada round2 data_entrada data_saida =
     (if texto data_entrada = [] \<or> texto data_saida = [] then 0
      else case (lido data_entrada, lido data_saida) of
             (Some a, Some b) \<Rightarrow>
               if int b - int a < 0 then 0 else round2 (of_int (int b - int a) / 3600)
           | _ \<Rightarrow> 0)"

definition consolidar_sequencia_poi ::
  "(rat \<Rightarrow> rat) \<Rightarrow> evento_processado list \<Rightarrow> evento_processado option" where
  "consolidar_sequencia_poi round2 sequencia_poi =
     (case sequencia_poi of
        [] \<Rightarrow> None
      | [e] \<Rightarrow> Some e
      | primeiro_evento # outros \<Rightarrow>
          (let ultimo_evento_saida = py_max parse_data_saida primeiro_evento outros
           in Some (primeiro_evento
                \<lparr>Data_Saida := Data_Saida ultimo_evento_saida,
                 Data_Atualizacao := Data_Atualizacao ultimo_evento_saida,
                 Duracao := calcular_duracao_formatada round2 (Data_Entrada primeiro_evento)
                              (Data_Saida ultimo_evento_saida),
                 Status := str_remove '' (Consolidado)'' (Status primeiro_evento)\<rparr>)))"

fun coletar_sequencia ::
  "string \<Rightarrow> evento_processado list \<Rightarrow> evento_processado list \<times> evento_processado list" where
  \<comment> \<open>the inner \<open>while\<close>: the events that follow with the same POI, and what is left\<close>
  "coletar_sequencia poi_atual [] = ([], [])"
| "coletar_sequencia poi_atual (e # es) =
     (if Descricao_POI e = poi_atual
      then (let (seq, resto) = coletar_sequencia poi_atual es in (e # seq, resto))
      else ([], e # es))"

function consolidar_sequencias :: "(rat \<Rightarrow> rat) \<Rightarrow> evento_processado list \<Rightarrow> evento_processado list" where
  \<comment> \<open>the outer \<open>while\<close> over the sorted events of one vehicle\<close>
  "consolidar_sequencias round2 [] = []"
| "consolidar_sequencias round2 (evento_atual # es) =
     (let sr = coletar_sequencia (Descricao_POI evento_atual) es;
          sequencia_poi = evento_atual # fst sr
      in (if length sequencia_poi > 1
          then (case consolidar_sequencia_poi round2 sequencia_poi of
                  None \<Rightarrow> []
                | Some evento_consolidado \<Rightarrow> [evento_consolidado])
          else [evento_atual])
         @ consolidar_sequencias round2 (snd sr))"
  by pat_completeness auto
termination
proof (relation "measure (\<lambda>(r, es). length es)")
  have shorter: "length (snd (coletar_sequencia p es)) \<le> length es" for p es
    by (induction es) (auto split: prod.splits)
  fix round2 :: "rat \<Rightarrow> rat" and evento_atual :: evento_processado
    and es :: "evento_processado list" and sr sequencia_poi
  assume "sr = coletar_sequencia (Descricao_POI evento_atual) es"
  then show "((round2, snd sr), (round2, evento_atual # es)) \<in> measure (\<lambda>(r, es). length es)"
    using shorter[of "Descricao_POI evento_atual" es] by simp
qed simp

definition eventos_por_veiculo ::
  "evento_processado list \<Rightarrow> (string \<times> evento_processado list) list" where
  \<comment> \<open>the dictionary from plate to events, in the order the plates first appear\<close>
  "eventos_por_veiculo evs = foldl (\<lambda>d e. grupos_append d (Placa_Veiculo e) e) [] evs"

definition consolidar_eventos_consecutivos ::
  "(rat \<Rightarrow> rat) \<Rightarrow> evento_processado list \<Rightarrow> evento_processado list" where
  "consolidar_eventos_consecutivos round2 eventos_processados =
     concat (map (\<lambda>(placa, eventos_veiculo).
                    consolidar_sequencias round2 (sort_key parse_data_entrada eventos_veiculo))
               (eventos_por_veiculo eventos_processados))"

definition sequencias_maximais :: "evento_processado list \<Rightarrow> evento_processado list list \<Rightarrow> bool" where
  \<comment> \<open>\<open>rs\<close> cuts \<open>es\<close> into its maximal runs of one POI: the runs in order make up
     \<open>es\<close>, a run is not empty and has one POI, and neighbouring runs differ in it\<close>
  "sequencias_maximais es rs =
     (concat rs = es \<and>
      (\<forall>r\<in>set rs. r \<noteq> [] \<and> (\<forall>e\<in>set r. Descricao_POI e = Descricao_POI (hd r))) \<and>
      (\<forall>i. Suc i < length rs \<longrightarrow>
         Descricao_POI (hd (rs ! i)) \<noteq> Descricao_POI (hd (rs ! Suc i))))"

definition sessao_da_sequencia ::
  "(rat \<Rightarrow> rat) \<Rightarrow> evento_processado list \<Rightarrow> evento_processado \<Rightarrow> bool" where
  \<comment> \<open>\<open>c\<close> is the session a run stands for: the event itself for a run of one, else
     the first event with the latest exit of the run and the duration between the two\<close>
  "sessao_da_sequencia round2 r c =
     (if length r = 1 then c = hd r
      else Data_Entrada c = Data_Entrada (hd r) \<and>
           parse_data_saida c = Max (parse_data_saida ` set r) \<and>
           Data_Saida c \<in> Data_Saida ` set r \<and>
           Duracao c = calcular_duracao_formatada round2 (Data_Entrada c) (Data_Saida c) \<and>
           Placa_Veiculo c = Placa_Veiculo (hd r) \<and>
           Descricao_POI c = Descricao_POI (hd r))"

definition eventos_do_veiculo :: "string \<Rightarrow> evento_processado list \<Rightarrow> evento_processado list" where
  \<comment> \<open>the events of one vehicle, sorted by entry (the sort is stable)\<close>
  "eventos_do_veiculo placa evs =
     sort_key parse_data_entrada (filter (\<lambda>e. Placa_Veiculo e = placa) evs)"

subsection \<open>Sample data\<close>

definition sample_detection :: datetime where
  \<comment> \<open>2025-08-07 16:10:30, naive\<close>
  "sample_detection = \<lparr>wall = (739469 * 86400 + 16 * 3600 + 10 * 60 + 30) * 1000000, tzoff = None\<rparr>"

definition hours_before :: "rat \<Rightarrow> datetime \<Rightarrow> datetime" where
  "hours_before h d = d\<lparr>wall := wall d - \<lfloor>h * of_int us_per_hour\<rfloor>\<rparr>"

definition sample_row :: "int \<Rightarrow> row" where
  \<comment> \<open>a vehicle that has been at the workshop for \<open>h\<close> hours\<close>
  "sample_row h =
     \<lparr>row_vehicle_plate = ''QAB1C23'', row_vehicle_id = ''701'', row_poi_name = ''Oficina JSL'',
      row_poi_group = Some ''Oficina'', row_filial = ''RRP'',
      row_entry_timestamp = Some (hours_before (of_int h) sample_detection),
      row_exit_timestamp = None, row_duration_hours = Some h\<rparr>"

definition sample_key :: string where
  "sample_key = ''RRP_OficinaJSL_QAB1C23''"

definition sample_entry :: "string \<Rightarrow> escalation_entry" where
  "sample_entry lvl =
     \<lparr>e_level = lvl, e_timestamp = hours_before 1 sample_detection, e_duration_hours = 2,
      e_alert_sent = True\<rparr>"

definition sample_state :: "string \<Rightarrow> last_alert \<Rightarrow> escalation_entry list \<Rightarrow> alert_state" where
  \<comment> \<open>an active document for \<open>sample_key\<close> at level \<open>lvl\<close>\<close>
  "sample_state lvl la hist =
     \<lparr>st_filial = ''RRP'', st_poi_name = ''Oficina JSL'', st_poi_normalized = ''OficinaJSL'',
      st_poi_group = ''Unknown'', st_vehicle_plate = ''QAB1C23'', st_vehicle_id = ''701'',
      current_level = Some lvl, state = ''active'',
      first_detection = hours_before 1 sample_detection,
      last_updated = hours_before 1 sample_detection,
      last_alert_sent = la, escalation_history = hist, alert_count = 1,
      last_alert_title = ''RRP_OficinaJSL_'' @ lvl @ ''_07082025_110000'',
      consecutive_hours = 2, threshold_hours = default_thresholds,
      st_entry_timestamp = Some (hours_before 3 sample_detection),
      actual_duration_hours = 2, deviation_magnitude = 0,
      created_at = hours_before 1 sample_detection,
      updated_at = hours_before 1 sample_detection,
      ttl = dt_add_days (hours_before 1 sample_detection) 7\<rparr>"

definition sample_env :: "row list \<Rightarrow> bool \<Rightarrow> cycle_env" where
  "sample_env rows read_fails =
     \<lparr>env_rows = rows, env_read_fails = read_fails, env_poi_thresholds = Map.empty,
      env_detection = sample_detection, env_sys_off = - 4 * 3600, env_write_ok = (\<lambda>d. True)\<rparr>"

definition sample_session_no_entry :: session where
  "sample_session_no_entry = (session_of_row (sample_row 3))\<lparr>entry_timestamp := None\<rparr>"

definition sample_deviation :: "datetime \<Rightarrow> deviation" where
  \<comment> \<open>an N1 deviation of the sample vehicle detected at \<open>det\<close>\<close>
  "sample_deviation det =
     \<lparr>deviation_id = sample_key @ ''_N1_'' @ strftime_Ymd_HMS det,
      d_filial = ''RRP'', d_poi_name = ''Oficina JSL'', d_poi_normalized = ''OficinaJSL'',
      d_vehicle_plate = ''QAB1C23'', d_vehicle_id = ''701'', d_current_level = ''N1'',
      d_duration_hours = 3, threshold_breached = 2, detection_timestamp = det,
      d_entry_timestamp = Some (hours_before 3 det), previous_state = None,
      confidence_score = 1\<rparr>"

definition sample_detection_later :: datetime where
  \<comment> \<open>2025-08-07 16:59:59, naive\<close>
  "sample_detection_later =
     \<lparr>wall = (739469 * 86400 + 16 * 3600 + 59 * 60 + 59) * 1000000, tzoff = None\<rparr>"

definition sample_veiculo :: "string \<Rightarrow> veiculo" where
  \<comment> \<open>a vehicle loading at the RRP factory for three hours\<close>
  "sample_veiculo p =
     \<lparr>v_placa = p, v_poi = ''Carregamento Fabrica RRP'', v_filial = ''RRP'', v_grupo = Fabrica,
      v_entrada = astimezone 0 CAMPO_GRANDE_TZ (hours_before 3 sample_detection),
      tempo_permanencia_horas = 3, evento_id = None\<rparr>"

definition sample_placas :: "string list" where
  "sample_placas = [''AAA0001'', ''AAA0002'', ''AAA0003'', ''AAA0004'', ''AAA0005'', ''AAA0006'']"



definition misordered_thresholds :: thresholds where
  \<comment> \<open>a configuration whose N1 threshold lies above its N2 threshold\<close>
  "misordered_thresholds = [''N1'' \<mapsto> 5, ''N2'' \<mapsto> 3, ''N3'' \<mapsto> 8, ''N4'' \<mapsto> 12]"

definition early_thresholds :: thresholds where
  \<comment> \<open>a configuration that alerts from the first hour on\<close>
  "early_thresholds = [''N1'' \<mapsto> 1, ''N2'' \<mapsto> 4, ''N3'' \<mapsto> 8, ''N4'' \<mapsto> 12]"

definition sample_configs :: "thresholds \<Rightarrow> poi_configuration list" where
  "sample_configs th = [\<lparr>cfg_poi_name = Some ''Oficina JSL'', cfg_escalation_hours = Some th\<rparr>]"

definition sample_env_with :: "row list \<Rightarrow> bool \<Rightarrow> (string \<rightharpoonup> thresholds) \<Rightarrow> cycle_env" where
  "sample_env_with rows read_fails pt = (sample_env rows read_fails)\<lparr>env_poi_thresholds := pt\<rparr>"

definition sample_round2 :: "rat \<Rightarrow> rat" where
  \<comment> \<open>two decimals, for the examples\<close>
  "sample_round2 x = of_int (round (x * 100)) / 100"

definition sample_data :: "nat \<Rightarrow> nat \<Rightarrow> data_str" where
  \<comment> \<open>a time of 07/08/2025, as the report formats it, with the seconds it parses to\<close>
  "sample_data h m =
     \<lparr>texto = ''07/08/2025 '' @ pad2 (int h) @ '':'' @ pad2 (int m) @ '':00'',
      lido = Some (739469 * 86400 + h * 3600 + m * 60)\<rparr>"

definition sample_evento :: "string \<Rightarrow> string \<Rightarrow> data_str \<Rightarrow> data_str \<Rightarrow> evento_processado" where
  \<comment> \<open>a closed visit of one vehicle to a POI of a group\<close>
  "sample_evento nome grp entrada saida =
     \<lparr>Filial = ''RRP'', Placa_Veiculo = ''QAB1C23'', Descricao_POI = nome, Grupo_POI = grp,
      Data_Entrada = entrada, Data_Saida = saida, Status = ''Saiu da cerca'',
      Duracao = sample_round2 (of_int (int (parse_data saida) - int (parse_data entrada)) / 3600),
      Data_Atualizacao = saida, Customer_Child_Id = ''39450'', Vehicle_Id = ''701'',
      Fence_Id = ''1543''\<rparr>"

definition sample_visitas :: "evento_processado list" where
  \<comment> \<open>three visits to the workshop, not in the order of their entries\<close>
  "sample_visitas =
     [sample_evento ''Oficina JSL'' Manutencao (sample_data 10 0) (sample_data 10 30),
      sample_evento ''Oficina JSL'' Manutencao (sample_data 8 0) (sample_data 8 20),
      sample_evento ''Oficina JSL'' Manutencao (sample_data 9 0) (sample_data 9 45)]"

section \<open>Properties of the deviation detector\<close>

subsection \<open>Auxiliary facts\<close>

lemma detect_loop_mem:
  "d \<in> set (detect_loop ss cs pt det) \<Longrightarrow>
     \<exists>s\<in>set ss. analyze_session_for_deviation s cs pt det = Inr (Some d)"
  by (induction ss) (auto split: sum.splits option.splits)

lemma detect_loop_complete:
  "s \<in> set ss \<Longrightarrow> analyze_session_for_deviation s cs pt det = Inr (Some d) \<Longrightarrow>
     d \<in> set (detect_loop ss cs pt det)"
  by (induction ss) (auto split: sum.splits option.splits)

lemma analyze_Some:
  assumes "analyze_session_for_deviation s cs pt det = Inr (Some d)"
  shows "candidate_level pt s = Some (d_current_level d)"
    and "should_escalate (d_current_level d) (cs (session_key s)) det = Inr True"
    and "d_filial d = filial s" and "d_poi_normalized d = normalize_poi_name (poi_name s)"
    and "d_vehicle_plate d = vehicle_plate s"
    and "previous_state d = cs (session_key s)"
    and "confidence_score d = calculate_confidence_score s (cs (session_key s))"
  using assms
  by (auto simp: analyze_session_for_deviation_def candidate_level_def thresholds_for_def Let_def
           split: option.splits sum.splits bool.splits)

lemma analyze_None:
  "candidate_level pt s = None \<Longrightarrow> analyze_session_for_deviation s cs pt det = Inr None"
  by (simp add: analyze_session_for_deviation_def candidate_level_def thresholds_for_def)

lemma session_key_of_row:
  "session_key (session_of_row r) =
     filial (session_of_row r) @ ''_'' @ normalize_poi_name (poi_name (session_of_row r)) @ ''_''
       @ vehicle_plate (session_of_row r)"
  by (simp add: session_of_row_def)

lemma analyze_key:
  "analyze_session_for_deviation (session_of_row r) cs pt det = Inr (Some d) \<Longrightarrow>
     deviation_key d = session_key (session_of_row r)"
  by (simp add: analyze_Some(3,4,5) deviation_key_def session_key_of_row)

lemma update_other:
  "k \<noteq> deviation_key d \<Longrightarrow> update_alert_state so d docs k = docs k"
  by (simp add: update_alert_state_def deviation_key_def Let_def split: option.splits)

lemma update_key:
  "\<exists>st'. update_alert_state so d docs (deviation_key d) = Some st' \<and>
         current_level st' = Some (d_current_level d) \<and>
         (docs (deviation_key d) \<noteq> None \<longrightarrow> state st' = state (the (docs (deviation_key d))))"
  by (simp add: update_alert_state_def deviation_key_def Let_def split: option.splits)

lemma store_loop_other:
  "\<forall>d\<in>set ds. deviation_key d \<noteq> k \<Longrightarrow> store_loop w so ds docs k = docs k"
  by (induction ds arbitrary: docs) (auto simp: store_deviation_def update_other)

lemma store_loop_rank:
  "docs k = Some st \<Longrightarrow> n \<le> level_rank (current_level st) \<Longrightarrow>
   \<forall>d\<in>set ds. deviation_key d = k \<longrightarrow> n \<le> level_rank (Some (d_current_level d)) \<Longrightarrow>
   \<exists>st'. store_loop w so ds docs k = Some st' \<and> n \<le> level_rank (current_level st')"
proof (induction ds arbitrary: docs st)
  case Nil
  then show ?case by simp
next
  case (Cons d ds)
  show ?case
  proof (cases "w d \<and> deviation_key d = k")
    case True
    obtain st1 where st1: "update_alert_state so d docs (deviation_key d) = Some st1"
      "current_level st1 = Some (d_current_level d)"
      using update_key by blast
    have "n \<le> level_rank (current_level st1)" using Cons.prems(3) True st1 by simp
    with Cons.IH[of "store_deviation w so d docs" st1] st1 True Cons.prems(3)
    show ?thesis by (simp add: store_deviation_def)
  next
    case False
    then have "store_deviation w so d docs k = docs k"
      by (auto simp: store_deviation_def update_other)
    with Cons.IH[of "store_deviation w so d docs" st] Cons.prems
    show ?thesis by simp
  qed
qed

lemma level_hierarchy_Nil: "level_hierarchy [] = None"
  by (simp add: level_hierarchy_def)

lemma should_escalate_rank:
  "should_escalate lvl (Some st) det = Inr True \<Longrightarrow>
     level_rank (current_level st) \<le> level_rank (Some lvl)"
  by (auto simp: level_hierarchy_Nil should_escalate_def level_rank_def dict_item_def dict_get_def str_truthy_def
      split: option.splits if_splits sum.splits last_alert.splits)

lemma calculate_alert_level_cases:
  "calculate_alert_level d th = Some ''N4'' \<longleftrightarrow> effective_threshold th ''N4'' \<le> d"
  "calculate_alert_level d th = Some ''N3'' \<longleftrightarrow>
     d < effective_threshold th ''N4'' \<and> effective_threshold th ''N3'' \<le> d"
  "calculate_alert_level d th = Some ''N2'' \<longleftrightarrow>
     d < effective_threshold th ''N4'' \<and> d < effective_threshold th ''N3'' \<and>
     effective_threshold th ''N2'' \<le> d"
  "calculate_alert_level d th = Some ''N1'' \<longleftrightarrow>
     d < effective_threshold th ''N4'' \<and> d < effective_threshold th ''N3'' \<and>
     d < effective_threshold th ''N2'' \<and> effective_threshold th ''N1'' \<le> d"
  "calculate_alert_level d th = None \<longleftrightarrow>
     d < effective_threshold th ''N4'' \<and> d < effective_threshold th ''N3'' \<and>
     d < effective_threshold th ''N2'' \<and> d < effective_threshold th ''N1''"
  by (auto simp: calculate_alert_level_def effective_threshold_def default_thresholds_def
        dict_get_def split: option.splits)

lemma calculate_alert_level_range:
  "calculate_alert_level d th = Some l \<Longrightarrow> l \<in> set [''N1'', ''N2'', ''N3'', ''N4'']"
  by (auto simp: calculate_alert_level_def split: if_splits)

lemma effective_default:
  "effective_threshold default_thresholds ''N1'' = 2"
  "effective_threshold default_thresholds ''N2'' = 4"
  "effective_threshold default_thresholds ''N3'' = 8"
  "effective_threshold default_thresholds ''N4'' = 12"
  by (simp_all add: effective_threshold_def default_thresholds_def dict_get_def)

lemma cycle_untouched:
  assumes "\<forall>r\<in>set (env_rows env). session_key (session_of_row r) = k \<longrightarrow>
             candidate_level (env_poi_thresholds env) (session_of_row r) = None"
  shows "snd (detect_poi_deviations env docs) k = docs k"
    and "\<forall>d\<in>set (fst (detect_poi_deviations env docs)). deviation_key d \<noteq> k"
proof -
  have nk: "deviation_key d \<noteq> k" if "d \<in> set (detect_deviations env docs)" for d
  proof -
    from that obtain r where r: "r \<in> set (env_rows env)"
      and an: "analyze_session_for_deviation (session_of_row r)
                 (get_current_alert_states (if env_read_fails env then Inl StorageError else Inr docs))
                 (env_poi_thresholds env) (env_detection env) = Inr (Some d)"
      unfolding detect_deviations_def Let_def by (auto dest!: detect_loop_mem)
    from analyze_Some(1)[OF an] have "candidate_level (env_poi_thresholds env) (session_of_row r) \<noteq> None"
      by simp
    with assms r have "session_key (session_of_row r) \<noteq> k" by auto
    with analyze_key[OF an] show ?thesis by simp
  qed
  then show "\<forall>d\<in>set (fst (detect_poi_deviations env docs)). deviation_key d \<noteq> k"
    by (simp add: detect_poi_deviations_def Let_def)
  from nk show "snd (detect_poi_deviations env docs) k = docs k"
    by (simp add: detect_poi_deviations_def Let_def store_loop_other)
qed

lemma analyze_emit:
  assumes "candidate_level pt s = Some lvl"
    and "should_escalate lvl (cs (session_key s)) det = Inr True"
    and "thresholds_for pt (poi_name s) lvl = Some b"
  shows "\<exists>d. analyze_session_for_deviation s cs pt det = Inr (Some d) \<and>
             d_current_level d = lvl \<and> previous_state d = cs (session_key s) \<and>
             threshold_breached d = b"
  using assms
  by (simp add: analyze_session_for_deviation_def candidate_level_def thresholds_for_def
        Let_def dict_item_def)

lemma should_escalate_same_level:
  assumes "current_level st = Some lvl" and "lvl \<in> set [''N1'', ''N2'', ''N3'', ''N4'']"
    and "last_alert_sent st = LA_Iso la" and "hours_between det la = Inr h"
  shows "should_escalate lvl (Some st) det = Inr (cooldown lvl \<le> h)"
  using assms
  by (auto simp: should_escalate_def str_truthy_def dict_item_def level_hierarchy_def
        realert_rule_def cooldown_def)

lemma should_escalate_no_state: "should_escalate lvl None det = Inr True"
  by (simp add: should_escalate_def)

lemma states_read_failure: "get_current_alert_states (Inl e) k = None"
  by (simp add: get_current_alert_states_def)

lemma analyze_fail_open:
  assumes "analyze_session_for_deviation s cs pt det = Inr (Some d)"
  shows "\<exists>d'. analyze_session_for_deviation s Map.empty pt det = Inr (Some d') \<and>
           deviation_key d' = deviation_key d \<and> d_current_level d' = d_current_level d"
  using assms
  by (auto simp: analyze_session_for_deviation_def Let_def should_escalate_no_state
        deviation_key_def split: option.splits sum.splits bool.splits)

lemma sample_session_key: "session_key (session_of_row (sample_row h)) = sample_key"
  by (simp add: session_of_row_def sample_row_def sample_key_def normalize_poi_name_def special_chars_def)

lemma sample_cand:
  "candidate_level Map.empty (session_of_row (sample_row h)) = calculate_alert_level (of_int h) default_thresholds"
  by (simp add: candidate_level_def session_of_row_def sample_row_def thresholds_for_def dict_get_def)

lemma default_n1_lowest: "n1_lowest default_thresholds"
  by (simp add: n1_lowest_def effective_default)

lemma get_poi_thresholds_failure: "get_poi_thresholds (Inl e) = Map.empty"
  by (simp add: get_poi_thresholds_def)

lemma calc_default:
  "calculate_alert_level 1 default_thresholds = None"
  "calculate_alert_level 3 default_thresholds = Some ''N1''"
  "calculate_alert_level 5 default_thresholds = Some ''N2''"
  "calculate_alert_level 13 default_thresholds = Some ''N4''"
  by (simp_all add: calculate_alert_level_def default_thresholds_def dict_get_def)

lemma single_row_cycle:
  assumes "env_rows env = [r]"
    and "analyze_session_for_deviation (session_of_row r)
           (get_current_alert_states (if env_read_fails env then Inl StorageError else Inr docs))
           (env_poi_thresholds env) (env_detection env) = res"
  shows "detect_poi_deviations env docs =
           (case res of
              Inr (Some d) \<Rightarrow> ([d], store_deviation (env_write_ok env) (env_sys_off env) d docs)
            | _ \<Rightarrow> ([], docs))"
  using assms
  by (auto simp: detect_poi_deviations_def detect_deviations_def Let_def
        split: sum.splits option.splits)

lemma sample_session_fields:
  "poi_name (session_of_row (sample_row h)) = ''Oficina JSL''"
  "duration_hours (session_of_row (sample_row h)) = of_int h"
  "filial (session_of_row (sample_row h)) = ''RRP''"
  "vehicle_plate (session_of_row (sample_row h)) = ''QAB1C23''"
  by (simp_all add: session_of_row_def sample_row_def)

lemma sample_env_fields:
  "env_rows (sample_env rows rf) = rows" "env_read_fails (sample_env rows rf) = rf"
  "env_poi_thresholds (sample_env rows rf) = Map.empty"
  "env_detection (sample_env rows rf) = sample_detection"
  "env_write_ok (sample_env rows rf) d = True"
  by (simp_all add: sample_env_def)

lemma sample_state_fields:
  "current_level (sample_state lvl la hist) = Some lvl"
  "state (sample_state lvl la hist) = ''active''"
  "last_alert_sent (sample_state lvl la hist) = la"
  "escalation_history (sample_state lvl la hist) = hist"
  by (simp_all add: sample_state_def)

lemma sample_thresholds: "thresholds_for Map.empty p = default_thresholds"
  by (simp add: thresholds_for_def dict_get_def)

lemma default_items:
  "default_thresholds ''N1'' = Some 2" "default_thresholds ''N2'' = Some 4"
  "default_thresholds ''N3'' = Some 8" "default_thresholds ''N4'' = Some 12"
  by (simp_all add: default_thresholds_def)

lemma level_ranks:
  "level_rank (Some ''N1'') = 1" "level_rank (Some ''N2'') = 2"
  "level_rank (Some ''N3'') = 3" "level_rank (Some ''N4'') = 4"
  by (simp_all add: level_rank_def level_hierarchy_def dict_get_def)

lemma hours_between_sample:
  "hours_between sample_detection (hours_before 1 sample_detection) = Inr 1"
  "hours_between sample_detection (hours_before (5 / 2) sample_detection) = Inr (5 / 2)"
  by (simp_all add: hours_between_def dt_sub_def hours_before_def sample_detection_def
        us_per_hour_def)

lemma sample_configs_thresholds:
  "thresholds_for (get_poi_thresholds (Inr (sample_configs th))) ''Oficina JSL'' = th"
  by (simp add: get_poi_thresholds_def sample_configs_def str_truthy_def thresholds_for_def
        dict_get_def)

lemma sample_env_with_fields:
  "env_rows (sample_env_with rows rf pt) = rows" "env_read_fails (sample_env_with rows rf pt) = rf"
  "env_poi_thresholds (sample_env_with rows rf pt) = pt"
  "env_detection (sample_env_with rows rf pt) = sample_detection"
  "env_write_ok (sample_env_with rows rf pt) d = True"
  by (simp_all add: sample_env_with_def sample_env_def)

lemma first_detection_cycle:
  assumes "env_rows env = [sample_row h]" and "env_write_ok env = (\<lambda>d. True)"
    and "candidate_level (env_poi_thresholds env) (session_of_row (sample_row h)) = Some lvl"
    and "thresholds_for (env_poi_thresholds env) ''Oficina JSL'' lvl = Some b"
    and "get_current_alert_states (if env_read_fails env then Inl StorageError else Inr docs)
           sample_key = None"
  shows "map d_current_level (fst (detect_poi_deviations env docs)) = [lvl]"
    and "map deviation_key (fst (detect_poi_deviations env docs)) = [sample_key]"
    and "map previous_state (fst (detect_poi_deviations env docs)) = [None]"
    and "map_option current_level (snd (detect_poi_deviations env docs) sample_key) = Some (Some lvl)"
proof -
  let ?cs = "get_current_alert_states (if env_read_fails env then Inl StorageError else Inr docs)"
  have "should_escalate lvl (?cs (session_key (session_of_row (sample_row h)))) (env_detection env)
          = Inr True"
    using assms(5) by (simp add: sample_session_key should_escalate_no_state)
  from analyze_emit[of "env_poi_thresholds env" "session_of_row (sample_row h)" lvl ?cs
         "env_detection env" b, OF assms(3) this] assms(4)
  obtain d where d: "analyze_session_for_deviation (session_of_row (sample_row h)) ?cs
       (env_poi_thresholds env) (env_detection env) = Inr (Some d)" "d_current_level d = lvl"
       "previous_state d = ?cs (session_key (session_of_row (sample_row h)))"
    by (auto simp: sample_session_fields)
  have k: "deviation_key d = sample_key"
    using analyze_key[OF d(1)] by (simp add: sample_session_key)
  have c: "detect_poi_deviations env docs = ([d], update_alert_state (env_sys_off env) d docs)"
    using single_row_cycle[OF assms(1) refl, of docs] d(1) assms(2)
    by (simp add: store_deviation_def)
  show "map d_current_level (fst (detect_poi_deviations env docs)) = [lvl]"
    and "map deviation_key (fst (detect_poi_deviations env docs)) = [sample_key]"
    and "map previous_state (fst (detect_poi_deviations env docs)) = [None]"
    using d k assms(5) by (simp_all add: c sample_session_key)
  from update_key[of "env_sys_off env" d docs] k d(2)
  show "map_option current_level (snd (detect_poi_deviations env docs) sample_key) = Some (Some lvl)"
    by (auto simp: c)
qed

lemma empty_states:
  "get_current_alert_states (Inr Map.empty) k = None"
  "get_current_alert_states (Inr (\<lambda>x. None)) k = None"
  "get_current_alert_states (Inl e) k = None"
  by (simp_all add: get_current_alert_states_def)

lemma misordered_facts:
  "effective_threshold misordered_thresholds ''N1'' = 5"
  "calculate_alert_level 4 misordered_thresholds = Some ''N2''"
  "misordered_thresholds ''N2'' = Some 3"
  "calculate_alert_level 4 [''N1'' \<mapsto> 5] = Some ''N2''"
  "effective_threshold [''N1'' \<mapsto> 5] ''N1'' = 5"
  by (simp_all add: misordered_thresholds_def effective_threshold_def calculate_alert_level_def
        dict_get_def)

lemma alerting_cycle:
  assumes "env_rows env = [sample_row h]" and "env_write_ok env = (\<lambda>d. True)"
    and "candidate_level (env_poi_thresholds env) (session_of_row (sample_row h)) = Some lvl"
    and "thresholds_for (env_poi_thresholds env) ''Oficina JSL'' lvl = Some b"
    and "should_escalate lvl
           (get_current_alert_states (if env_read_fails env then Inl StorageError else Inr docs)
              sample_key) (env_detection env) = Inr True"
  shows "map d_current_level (fst (detect_poi_deviations env docs)) = [lvl]"
proof -
  let ?cs = "get_current_alert_states (if env_read_fails env then Inl StorageError else Inr docs)"
  have "should_escalate lvl (?cs (session_key (session_of_row (sample_row h)))) (env_detection env)
          = Inr True"
    using assms(5) by (simp add: sample_session_key)
  from analyze_emit[of "env_poi_thresholds env" "session_of_row (sample_row h)" lvl ?cs
         "env_detection env" b, OF assms(3) this] assms(4)
  obtain d where d: "analyze_session_for_deviation (session_of_row (sample_row h)) ?cs
       (env_poi_thresholds env) (env_detection env) = Inr (Some d)" "d_current_level d = lvl"
    by (auto simp: sample_session_fields)
  have c: "detect_poi_deviations env docs = ([d], update_alert_state (env_sys_off env) d docs)"
    using single_row_cycle[OF assms(1) refl, of docs] d(1) assms(2)
    by (simp add: store_deviation_def)
  show ?thesis using d by (simp add: c)
qed

lemma created_state_has_no_last_alert:
  "docs (deviation_key d) = None \<Longrightarrow>
     map_option last_alert_sent (update_alert_state so d docs (deviation_key d)) = Some LA_Missing"
  by (simp add: update_alert_state_def deviation_key_def Let_def)

lemma should_escalate_stored:
  "should_escalate ''N2'' (Some (sample_state ''N2'' (LA_Datetime t) [])) det = Inr True"
  "should_escalate ''N2'' (Some (sample_state ''N2'' LA_Missing [])) det = Inr False"
  by (simp_all add: should_escalate_def sample_state_fields str_truthy_def dict_item_def
        level_hierarchy_def)

subsection \<open>Escalation properties\<close>


text \<open>
  C1, as stated, has no candidate level below the N1 threshold. The thresholds are read
  from the configuration as they are: with N1 at 5 h and N2 at 3 h a dwell of 4 h lies below
  the N1 threshold and yet gets the candidate N2, and a first cycle stores a state at N2.
  The same happens with a configuration that only sets N1 to 5 h, N2 keeping its default.
\<close>
theorem candidate_below_n1_threshold:
  "duration_hours (session_of_row (sample_row 4)) = 4 \<and>
   effective_threshold (thresholds_for (get_poi_thresholds (Inr (sample_configs misordered_thresholds)))
     (poi_name (session_of_row (sample_row 4)))) ''N1'' = 5 \<and>
   candidate_level (get_poi_thresholds (Inr (sample_configs misordered_thresholds)))
     (session_of_row (sample_row 4)) = Some ''N2'' \<and>
   Map.empty sample_key = (None :: alert_state option) \<and>
   map_option current_level
     (snd (detect_poi_deviations
        (sample_env_with [sample_row 4] False
           (get_poi_thresholds (Inr (sample_configs misordered_thresholds))))
        Map.empty) sample_key) = Some (Some ''N2'') \<and>
   effective_threshold [''N1'' \<mapsto> 5] ''N1'' = 5 \<and>
   calculate_alert_level 4 [''N1'' \<mapsto> 5] = Some ''N2''"
proof -
  let ?pt = "get_poi_thresholds (Inr (sample_configs misordered_thresholds))"
  have c: "candidate_level ?pt (session_of_row (sample_row 4)) = Some ''N2''"
    by (simp add: candidate_level_def sample_session_fields sample_configs_thresholds
          misordered_facts)
  have "map_option current_level
     (snd (detect_poi_deviations (sample_env_with [sample_row 4] False ?pt) Map.empty) sample_key)
      = Some (Some ''N2'')"
    by (rule first_detection_cycle(4)[where h = 4 and b = 3])
       (simp_all add: sample_env_with_fields c sample_configs_thresholds misordered_facts
          empty_states fun_eq_iff)
  with c show ?thesis
    by (simp add: sample_session_fields sample_configs_thresholds misordered_facts)
qed

text \<open>
  C1. The candidate level of a session is computed from its dwell hours against the
  thresholds of its POI, each level defaulting to 2 h (N1), 4 h (N2), 8 h (N3) and 12 h (N4):
  it is the highest level whose threshold is met, and there is none exactly when the dwell
  is below all four thresholds, which is the case below the N1 threshold whenever no other
  threshold lies below that of N1. A deviation carries the candidate level of its session,
  and a session with a candidate level, no prior state and a configured threshold for that
  level yields one. Without candidate level the analysis yields no deviation, and a cycle
  neither creates nor changes the document of that key.
\<close>
theorem candidate_level_from_dwell:
  "(calculate_alert_level d th = Some ''N4'' \<longleftrightarrow> effective_threshold th ''N4'' \<le> d) \<and>
   (calculate_alert_level d th = Some ''N3'' \<longleftrightarrow>
      d < effective_threshold th ''N4'' \<and> effective_threshold th ''N3'' \<le> d) \<and>
   (calculate_alert_level d th = Some ''N2'' \<longleftrightarrow>
      d < effective_threshold th ''N4'' \<and> d < effective_threshold th ''N3'' \<and>
      effective_threshold th ''N2'' \<le> d) \<and>
   (calculate_alert_level d th = Some ''N1'' \<longleftrightarrow>
      d < effective_threshold th ''N4'' \<and> d < effective_threshold th ''N3'' \<and>
      d < effective_threshold th ''N2'' \<and> effective_threshold th ''N1'' \<le> d) \<and>
   (calculate_alert_level d th = None \<longleftrightarrow>
      d < effective_threshold th ''N4'' \<and> d < effective_threshold th ''N3'' \<and>
      d < effective_threshold th ''N2'' \<and> d < effective_threshold th ''N1'') \<and>
   candidate_level pt s = calculate_alert_level (duration_hours s) (thresholds_for pt (poi_name s)) \<and>
   (pt (poi_name s) = None \<longrightarrow>
      effective_threshold (thresholds_for pt (poi_name s)) ''N1'' = 2 \<and>
      effective_threshold (thresholds_for pt (poi_name s)) ''N2'' = 4 \<and>
      effective_threshold (thresholds_for pt (poi_name s)) ''N3'' = 8 \<and>
      effective_threshold (thresholds_for pt (poi_name s)) ''N4'' = 12) \<and>
   (n1_lowest (thresholds_for pt (poi_name s)) \<and>
    duration_hours s < effective_threshold (thresholds_for pt (poi_name s)) ''N1'' \<longrightarrow>
      candidate_level pt s = None) \<and>
   (candidate_level pt s = None \<longrightarrow> analyze_session_for_deviation s cs pt det = Inr None) \<and>
   (\<forall>dv. analyze_session_for_deviation s cs pt det = Inr (Some dv) \<longrightarrow>
      candidate_level pt s = Some (d_current_level dv)) \<and>
   (\<forall>lvl b. candidate_level pt s = Some lvl \<and> cs (session_key s) = None \<and>
      thresholds_for pt (poi_name s) lvl = Some b \<longrightarrow>
      (\<exists>dv. analyze_session_for_deviation s cs pt det = Inr (Some dv) \<and>
            d_current_level dv = lvl \<and> threshold_breached dv = b)) \<and>
   ((\<forall>r\<in>set (env_rows env). session_key (session_of_row r) = k \<longrightarrow>
        candidate_level (env_poi_thresholds env) (session_of_row r) = None) \<longrightarrow>
      snd (detect_poi_deviations env docs) k = docs k \<and>
      (\<forall>dv\<in>set (fst (detect_poi_deviations env docs)). deviation_key dv \<noteq> k))"
proof -
  have dflt: "pt (poi_name s) = None \<Longrightarrow> thresholds_for pt (poi_name s) = default_thresholds"
    by (simp add: thresholds_for_def dict_get_def)
  have low: "candidate_level pt s = None"
    if "n1_lowest (thresholds_for pt (poi_name s))"
       "duration_hours s < effective_threshold (thresholds_for pt (poi_name s)) ''N1''"
    using that by (auto simp: candidate_level_def calculate_alert_level_cases(5) n1_lowest_def)
  have emit: "\<exists>dv. analyze_session_for_deviation s cs pt det = Inr (Some dv) \<and>
            d_current_level dv = lvl \<and> threshold_breached dv = b"
    if "candidate_level pt s = Some lvl" "cs (session_key s) = None"
       "thresholds_for pt (poi_name s) lvl = Some b" for lvl b
    using analyze_emit[of pt s lvl cs det b, OF that(1) _ that(3)] that(2)
    by (auto simp: should_escalate_no_state)
  have cyc: "snd (detect_poi_deviations env docs) k = docs k \<and>
      (\<forall>dv\<in>set (fst (detect_poi_deviations env docs)). deviation_key dv \<noteq> k)"
    if "\<forall>r\<in>set (env_rows env). session_key (session_of_row r) = k \<longrightarrow>
        candidate_level (env_poi_thresholds env) (session_of_row r) = None"
    using cycle_untouched[OF that, of docs] by simp
  have c6: "candidate_level pt s =
      calculate_alert_level (duration_hours s) (thresholds_for pt (poi_name s))"
    by (simp add: candidate_level_def)
  have c7: "pt (poi_name s) = None \<longrightarrow>
      effective_threshold (thresholds_for pt (poi_name s)) ''N1'' = 2 \<and>
      effective_threshold (thresholds_for pt (poi_name s)) ''N2'' = 4 \<and>
      effective_threshold (thresholds_for pt (poi_name s)) ''N3'' = 8 \<and>
      effective_threshold (thresholds_for pt (poi_name s)) ''N4'' = 12"
    by (simp add: dflt effective_default)
  have c8: "n1_lowest (thresholds_for pt (poi_name s)) \<and>
    duration_hours s < effective_threshold (thresholds_for pt (poi_name s)) ''N1'' \<longrightarrow>
      candidate_level pt s = None"
    using low by simp
  have c9: "candidate_level pt s = None \<longrightarrow> analyze_session_for_deviation s cs pt det = Inr None"
    by (simp add: analyze_None)
  have c10: "\<forall>dv. analyze_session_for_deviation s cs pt det = Inr (Some dv) \<longrightarrow>
      candidate_level pt s = Some (d_current_level dv)"
    by (simp add: analyze_Some(1))
  have c11: "\<forall>lvl b. candidate_level pt s = Some lvl \<and> cs (session_key s) = None \<and>
      thresholds_for pt (poi_name s) lvl = Some b \<longrightarrow>
      (\<exists>dv. analyze_session_for_deviation s cs pt det = Inr (Some dv) \<and>
            d_current_level dv = lvl \<and> threshold_breached dv = b)"
    using emit by simp
  have c12: "(\<forall>r\<in>set (env_rows env). session_key (session_of_row r) = k \<longrightarrow>
        candidate_level (env_poi_thresholds env) (session_of_row r) = None) \<longrightarrow>
      snd (detect_poi_deviations env docs) k = docs k \<and>
      (\<forall>dv\<in>set (fst (detect_poi_deviations env docs)). deviation_key dv \<noteq> k)"
    using cyc by (rule impI)
  show ?thesis
    by (intro conjI) (rule calculate_alert_level_cases c6 c7 c8 c9 c10 c11 c12)+
qed

theorem candidate_level_from_dwell_witness:
  "candidate_level Map.empty (session_of_row (sample_row 1)) = None \<and>
   candidate_level Map.empty (session_of_row (sample_row 3)) = Some ''N1'' \<and>
   candidate_level Map.empty (session_of_row (sample_row 13)) = Some ''N4'' \<and>
   analyze_session_for_deviation (session_of_row (sample_row 1)) Map.empty Map.empty sample_detection
     = Inr None \<and>
   (\<exists>dv. analyze_session_for_deviation (session_of_row (sample_row 3)) Map.empty Map.empty
            sample_detection = Inr (Some dv) \<and> d_current_level dv = ''N1'' \<and>
          threshold_breached dv = 2) \<and>
   snd (detect_poi_deviations (sample_env [sample_row 1] False) Map.empty) sample_key = None"
proof -
  note w = candidate_level_from_dwell[of _ _ Map.empty _ Map.empty sample_detection
             "sample_env [sample_row 1] False" sample_key Map.empty]
  have e: "effective_threshold (thresholds_for Map.empty p) l = effective_threshold default_thresholds l" for p l
    by (simp add: sample_thresholds)
  have low: "n1_lowest (thresholds_for Map.empty p)" for p
    by (simp add: sample_thresholds default_n1_lowest)
  have c1: "candidate_level Map.empty (session_of_row (sample_row 1)) = None"
    by (rule w[of _ _ "session_of_row (sample_row 1)", THEN conjunct2, THEN conjunct2, THEN conjunct2,
          THEN conjunct2, THEN conjunct2, THEN conjunct2, THEN conjunct2, THEN conjunct1, rule_format])
       (simp add: low e effective_default sample_session_fields)
  have c3: "candidate_level Map.empty (session_of_row (sample_row 3)) = Some ''N1''"
    using w[of 3 default_thresholds "session_of_row (sample_row 3)", THEN conjunct2, THEN conjunct2,
            THEN conjunct2, THEN conjunct1]
    by (simp add: sample_cand effective_default)
  have c13: "candidate_level Map.empty (session_of_row (sample_row 13)) = Some ''N4''"
    using w[of 13 default_thresholds "session_of_row (sample_row 13)", THEN conjunct1]
    by (simp add: sample_cand effective_default)
  have a1: "analyze_session_for_deviation (session_of_row (sample_row 1)) Map.empty Map.empty
      sample_detection = Inr None"
    by (rule w[of _ _ "session_of_row (sample_row 1)", THEN conjunct2, THEN conjunct2, THEN conjunct2,
          THEN conjunct2, THEN conjunct2, THEN conjunct2, THEN conjunct2, THEN conjunct2,
          THEN conjunct1, rule_format]) (rule c1)
  have a3: "\<exists>dv. analyze_session_for_deviation (session_of_row (sample_row 3)) Map.empty Map.empty
            sample_detection = Inr (Some dv) \<and> d_current_level dv = ''N1'' \<and>
          threshold_breached dv = 2"
    by (rule w[of _ _ "session_of_row (sample_row 3)", THEN conjunct2, THEN conjunct2, THEN conjunct2,
          THEN conjunct2, THEN conjunct2, THEN conjunct2, THEN conjunct2, THEN conjunct2,
          THEN conjunct2, THEN conjunct2, THEN conjunct1, rule_format])
       (simp add: c3 sample_thresholds default_items)
  have rows: "\<forall>r\<in>set (env_rows (sample_env [sample_row 1] False)).
      session_key (session_of_row r) = sample_key \<longrightarrow>
        candidate_level (env_poi_thresholds (sample_env [sample_row 1] False)) (session_of_row r) = None"
    using c1 by (simp add: sample_env_fields)
  have u: "snd (detect_poi_deviations (sample_env [sample_row 1] False) Map.empty) sample_key = None"
    using w[of _ _ "session_of_row (sample_row 1)", THEN conjunct2, THEN conjunct2, THEN conjunct2,
          THEN conjunct2, THEN conjunct2, THEN conjunct2, THEN conjunct2, THEN conjunct2,
          THEN conjunct2, THEN conjunct2, THEN conjunct2, THEN mp, OF rows]
    by simp
  from c1 c3 c13 a1 a3 u show ?thesis by (intro conjI)
qed

text \<open>
  C2, as stated, fails when the state lookup of a cycle fails: the key is then handled as
  new, and a document at N4 is overwritten with the candidate N1 of a three-hour dwell.
\<close>

theorem stored_level_decreases_on_failed_read:
  "[sample_key \<mapsto> sample_state ''N4'' LA_Missing []] sample_key
      = Some (sample_state ''N4'' LA_Missing []) \<and>
   state (sample_state ''N4'' LA_Missing []) = ''active'' \<and>
   level_rank (current_level (sample_state ''N4'' LA_Missing [])) = 4 \<and>
   candidate_level Map.empty (session_of_row (sample_row 3)) = Some ''N1'' \<and>
   map_option (\<lambda>st. level_rank (current_level st))
     (snd (detect_poi_deviations (sample_env [sample_row 3] True)
        [sample_key \<mapsto> sample_state ''N4'' LA_Missing []]) sample_key) = Some 1"
proof -
  let ?docs = "[sample_key \<mapsto> sample_state ''N4'' LA_Missing []]"
  let ?env = "sample_env [sample_row 3] True"
  have c: "candidate_level Map.empty (session_of_row (sample_row 3)) = Some ''N1''"
    by (simp add: sample_cand calc_default)
  from analyze_emit[OF c, of Map.empty sample_detection 2]
  obtain d where d: "analyze_session_for_deviation (session_of_row (sample_row 3)) Map.empty
       Map.empty sample_detection = Inr (Some d)" "d_current_level d = ''N1''"
    by (auto simp: should_escalate_no_state sample_thresholds default_items sample_session_fields)
  have k: "deviation_key d = sample_key"
    using analyze_key[OF d(1)] by (simp add: sample_session_key)
  have "detect_poi_deviations ?env ?docs = ([d], update_alert_state (env_sys_off ?env) d ?docs)"
    using single_row_cycle[of ?env "sample_row 3" ?docs, OF _ refl] d(1)
    by (simp add: sample_env_fields get_current_alert_states_def store_deviation_def)
  moreover from update_key[of "env_sys_off ?env" d ?docs] k d(2)
  have "map_option (\<lambda>st. level_rank (current_level st))
          (update_alert_state (env_sys_off ?env) d ?docs sample_key) = Some 1"
    by (auto simp: level_ranks)
  ultimately show ?thesis
    using c by (simp add: sample_state_fields level_ranks)
qed

text \<open>
  C2. In every cycle whose state lookup succeeds, the level stored for a key with an active
  document does not decrease, and a candidate ordinally below the stored level produces no
  deviation for that key.
\<close>

theorem stored_level_monotone:
  assumes "docs k = Some st" and "state st = ''active''" and "\<not> env_read_fails env"
  shows "(\<exists>st'. snd (detect_poi_deviations env docs) k = Some st' \<and>
               level_rank (current_level st) \<le> level_rank (current_level st')) \<and>
         (\<forall>r\<in>set (env_rows env). \<forall>lvl.
            session_key (session_of_row r) = k \<and>
            candidate_level (env_poi_thresholds env) (session_of_row r) = Some lvl \<and>
            level_rank (Some lvl) < level_rank (current_level st) \<longrightarrow>
            (\<forall>d\<in>set (fst (detect_poi_deviations env docs)).
               deviation_key d = k \<longrightarrow> d_current_level d \<noteq> lvl))"
proof -
  let ?cs = "get_current_alert_states (Inr docs)"
  have cs: "?cs k = Some st" using assms(1,2) by (simp add: get_current_alert_states_def)
  have rank: "level_rank (current_level st) \<le> level_rank (Some (d_current_level d))"
    if "d \<in> set (detect_deviations env docs)" "deviation_key d = k" for d
  proof -
    from that(1) assms(3) obtain r where r: "r \<in> set (env_rows env)"
      and an: "analyze_session_for_deviation (session_of_row r) ?cs
                 (env_poi_thresholds env) (env_detection env) = Inr (Some d)"
      unfolding detect_deviations_def Let_def by (auto dest!: detect_loop_mem)
    from analyze_key[OF an] that(2) have "session_key (session_of_row r) = k" by simp
    with analyze_Some(2)[OF an] cs
    have "should_escalate (d_current_level d) (Some st) (env_detection env) = Inr True" by simp
    then show ?thesis by (rule should_escalate_rank)
  qed
  have 1: "\<exists>st'. snd (detect_poi_deviations env docs) k = Some st' \<and>
               level_rank (current_level st) \<le> level_rank (current_level st')"
    unfolding detect_poi_deviations_def Let_def snd_conv
    using store_loop_rank[of docs k st "level_rank (current_level st)" "detect_deviations env docs"
            "env_write_ok env" "env_sys_off env"] assms(1) rank
    by auto
  have 2: "d_current_level d \<noteq> lvl"
    if "level_rank (Some lvl) < level_rank (current_level st)"
       "d \<in> set (fst (detect_poi_deviations env docs))" "deviation_key d = k" for d lvl
    using rank[of d] that by (auto simp: detect_poi_deviations_def Let_def)
  from 1 2 show ?thesis by blast
qed

theorem stored_level_monotone_witness:
  "[sample_key \<mapsto> sample_state ''N1'' LA_Missing []] sample_key
      = Some (sample_state ''N1'' LA_Missing []) \<and>
   state (sample_state ''N1'' LA_Missing []) = ''active'' \<and>
   \<not> env_read_fails (sample_env [sample_row 5] False) \<and>
   candidate_level Map.empty (session_of_row (sample_row 5)) = Some ''N2'' \<and>
   (\<exists>st'. snd (detect_poi_deviations (sample_env [sample_row 5] False)
              [sample_key \<mapsto> sample_state ''N1'' LA_Missing []]) sample_key = Some st' \<and>
          1 \<le> level_rank (current_level st'))"
  using stored_level_monotone[of "[sample_key \<mapsto> sample_state ''N1'' LA_Missing []]" sample_key
          "sample_state ''N1'' LA_Missing []" "sample_env [sample_row 5] False"]
  by (simp add: sample_state_fields sample_env_fields level_ranks sample_cand calc_default)


text \<open>
  C3. The cooldown of a level (4 h for N1, 2 h for N2, 1 h for N3 and N4) is compared with
  the time since the last alert only when the stored last-alert value is an ISO string. The
  states of this system never hold one. The alert manager stores a timestamp object, on
  which the string replacement raises, so a vehicle at N2 checked one hour after its last
  alert is alerted again. The state the detector creates holds no last-alert value at all,
  so without the alert manager the same level is never alerted again.
\<close>
theorem cooldown_bypassed_by_stored_timestamp:
  "hours_between sample_detection (hours_before 1 sample_detection) = Inr 1 \<and>
   should_escalate ''N2''
     (Some (sample_state ''N2'' (LA_Datetime (hours_before 1 sample_detection)) []))
     sample_detection = Inr True \<and>
   map d_current_level
     (fst (detect_poi_deviations (sample_env [sample_row 5] False)
        [sample_key \<mapsto> sample_state ''N2'' (LA_Datetime (hours_before 1 sample_detection)) []]))
     = [''N2''] \<and>
   map_option last_alert_sent
     (snd (detect_poi_deviations (sample_env [sample_row 5] False) Map.empty) sample_key)
     = Some LA_Missing \<and>
   should_escalate ''N2'' (Some (sample_state ''N2'' LA_Missing [])) sample_detection = Inr False"
proof -
  let ?st = "sample_state ''N2'' (LA_Datetime (hours_before 1 sample_detection)) []"
  have c: "candidate_level Map.empty (session_of_row (sample_row 5)) = Some ''N2''"
    by (simp add: sample_cand calc_default)
  have 1: "map d_current_level
     (fst (detect_poi_deviations (sample_env [sample_row 5] False) [sample_key \<mapsto> ?st])) = [''N2'']"
    by (rule alerting_cycle[where h = 5 and b = 4])
       (simp_all add: sample_env_fields c sample_thresholds default_items fun_eq_iff
          get_current_alert_states_def sample_state_fields should_escalate_stored)
  let ?env = "sample_env [sample_row 5] False"
  from analyze_emit[of Map.empty "session_of_row (sample_row 5)" "''N2''" Map.empty
         sample_detection 4, OF c]
  obtain d where d: "analyze_session_for_deviation (session_of_row (sample_row 5)) Map.empty
       Map.empty sample_detection = Inr (Some d)"
    by (auto simp: should_escalate_no_state sample_thresholds default_items sample_session_fields)
  have k: "deviation_key d = sample_key"
    using analyze_key[OF d] by (simp add: sample_session_key)
  have "detect_poi_deviations ?env Map.empty = ([d], update_alert_state (env_sys_off ?env) d Map.empty)"
    using single_row_cycle[of ?env "sample_row 5" Map.empty, OF _ refl] d
    by (simp add: sample_env_fields get_current_alert_states_def store_deviation_def)
  then have 2: "map_option last_alert_sent (snd (detect_poi_deviations ?env Map.empty) sample_key)
      = Some LA_Missing"
    using created_state_has_no_last_alert[of Map.empty d "env_sys_off ?env"] k by simp
  from 1 2 show ?thesis
    by (simp add: should_escalate_stored hours_between_sample)
qed

text \<open>
  C8, as stated, has a storage failure never suppress an alert. The thresholds are read from
  the same store and fall back to the defaults when that read fails: a vehicle one hour at a
  POI configured to alert from the first hour is alerted with the store up and not with the
  store down.
\<close>
theorem outage_drops_alert:
  "map d_current_level
     (fst (detect_poi_deviations
        (sample_env_with [sample_row 1] False
           (get_poi_thresholds (Inr (sample_configs early_thresholds))))
        Map.empty)) = [''N1''] \<and>
   fst (detect_poi_deviations
        (sample_env_with [sample_row 1] True (get_poi_thresholds (Inl StorageError)))
        Map.empty) = []"
proof -
  let ?pt = "get_poi_thresholds (Inr (sample_configs early_thresholds))"
  have e: "calculate_alert_level 1 early_thresholds = Some ''N1''" "early_thresholds ''N1'' = Some 1"
    by (simp_all add: early_thresholds_def calculate_alert_level_def dict_get_def)
  have c: "candidate_level ?pt (session_of_row (sample_row 1)) = Some ''N1''"
    by (simp add: candidate_level_def sample_session_fields sample_configs_thresholds e)
  have 1: "map d_current_level
     (fst (detect_poi_deviations (sample_env_with [sample_row 1] False ?pt) Map.empty)) = [''N1'']"
    by (rule first_detection_cycle(1)[where h = 1 and b = 1])
       (simp_all add: sample_env_with_fields c sample_configs_thresholds e empty_states fun_eq_iff)
  have n: "candidate_level (get_poi_thresholds (Inl StorageError)) (session_of_row (sample_row 1)) = None"
    by (simp add: get_poi_thresholds_failure sample_cand calc_default)
  have 2: "fst (detect_poi_deviations
        (sample_env_with [sample_row 1] True (get_poi_thresholds (Inl StorageError))) Map.empty) = []"
    using single_row_cycle[of "sample_env_with [sample_row 1] True (get_poi_thresholds (Inl StorageError))"
            "sample_row 1" Map.empty, OF _ refl]
    by (simp add: sample_env_with_fields analyze_None[OF n])
  from 1 2 show ?thesis by (intro conjI)
qed

text \<open>
  C8. When the state lookup fails, every key is handled as having no prior state: the
  escalation decision is the first-alert one, every session with a candidate level under
  the thresholds in force, and with a configured threshold for that level, yields a
  deviation without previous state, and under the same thresholds no deviation that a
  successful lookup would have produced is lost. A failed threshold read puts the default
  thresholds in force.
\<close>
theorem read_failure_fails_open:
  assumes "env_read_fails env"
  shows "(\<forall>k lvl. should_escalate lvl
             (get_current_alert_states (Inl StorageError) k) (env_detection env) = Inr True) \<and>
         (\<forall>r\<in>set (env_rows env). \<forall>lvl b.
            candidate_level (env_poi_thresholds env) (session_of_row r) = Some lvl \<and>
            thresholds_for (env_poi_thresholds env) (row_poi_name r) lvl = Some b \<longrightarrow>
            (\<exists>d\<in>set (fst (detect_poi_deviations env docs)).
               deviation_key d = session_key (session_of_row r) \<and> d_current_level d = lvl \<and>
               previous_state d = None)) \<and>
         (\<forall>d\<in>set (fst (detect_poi_deviations (env\<lparr>env_read_fails := False\<rparr>) docs)).
            \<exists>d'\<in>set (fst (detect_poi_deviations env docs)).
               deviation_key d' = deviation_key d \<and> d_current_level d' = d_current_level d) \<and>
         (\<forall>p. thresholds_for (get_poi_thresholds (Inl StorageError)) p = default_thresholds)"
proof -
  have cs: "get_current_alert_states (if env_read_fails env then Inl StorageError else Inr docs)
              = Map.empty"
    using assms by (simp add: get_current_alert_states_def)
  have 1: "\<forall>k lvl. should_escalate lvl
             (get_current_alert_states (Inl StorageError) k) (env_detection env) = Inr True"
    by (simp add: states_read_failure should_escalate_no_state)
  have 2: "\<exists>d\<in>set (fst (detect_poi_deviations env docs)).
               deviation_key d = session_key (session_of_row r) \<and> d_current_level d = lvl \<and>
               previous_state d = None"
    if r: "r \<in> set (env_rows env)"
      and c: "candidate_level (env_poi_thresholds env) (session_of_row r) = Some lvl"
      and t: "thresholds_for (env_poi_thresholds env) (row_poi_name r) lvl = Some b" for r lvl b
  proof -
    have pn: "poi_name (session_of_row r) = row_poi_name r" by (simp add: session_of_row_def)
    from analyze_emit[OF c, of Map.empty "env_detection env" b] t pn
    obtain d where d: "analyze_session_for_deviation (session_of_row r) Map.empty
        (env_poi_thresholds env) (env_detection env) = Inr (Some d)"
        "d_current_level d = lvl" "previous_state d = None"
      by (auto simp: should_escalate_no_state)
    have "d \<in> set (detect_deviations env docs)"
      unfolding detect_deviations_def Let_def cs
      by (rule detect_loop_complete[OF _ d(1)]) (use r in simp)
    with d analyze_key[OF d(1)] show ?thesis
      by (auto simp: detect_poi_deviations_def Let_def)
  qed
  have 3: "\<exists>d'\<in>set (fst (detect_poi_deviations env docs)).
               deviation_key d' = deviation_key d \<and> d_current_level d' = d_current_level d"
    if "d \<in> set (fst (detect_poi_deviations (env\<lparr>env_read_fails := False\<rparr>) docs))" for d
  proof -
    from that obtain r where r: "r \<in> set (env_rows env)"
      and an: "analyze_session_for_deviation (session_of_row r) (get_current_alert_states (Inr docs))
                 (env_poi_thresholds env) (env_detection env) = Inr (Some d)"
      by (auto simp: detect_poi_deviations_def detect_deviations_def Let_def dest!: detect_loop_mem)
    from analyze_fail_open[OF an] obtain d' where d':
      "analyze_session_for_deviation (session_of_row r) Map.empty
         (env_poi_thresholds env) (env_detection env) = Inr (Some d')"
      "deviation_key d' = deviation_key d" "d_current_level d' = d_current_level d" by blast
    have "d' \<in> set (detect_deviations env docs)"
      unfolding detect_deviations_def Let_def cs
      by (rule detect_loop_complete[OF _ d'(1)]) (use r in simp)
    with d' show ?thesis by (auto simp: detect_poi_deviations_def Let_def)
  qed
  have 4: "\<forall>p. thresholds_for (get_poi_thresholds (Inl StorageError)) p = default_thresholds"
    by (simp add: get_poi_thresholds_failure sample_thresholds)
  from 1 2 3 4 show ?thesis by blast
qed

theorem read_failure_fails_open_witness:
  "env_read_fails (sample_env [sample_row 3] True) \<and>
   candidate_level Map.empty (session_of_row (sample_row 3)) = Some ''N1'' \<and>
   map (\<lambda>d. (deviation_key d, d_current_level d, previous_state d))
     (fst (detect_poi_deviations (sample_env [sample_row 3] True)
        [sample_key \<mapsto> sample_state ''N4'' LA_Missing []]))
   = [(sample_key, ''N1'', None)]"
proof -
  let ?docs = "[sample_key \<mapsto> sample_state ''N4'' LA_Missing []]"
  let ?env = "sample_env [sample_row 3] True"
  have c: "candidate_level Map.empty (session_of_row (sample_row 3)) = Some ''N1''"
    by (simp add: sample_cand calc_default)
  from read_failure_fails_open[of ?env ?docs] c
  obtain d where d: "d \<in> set (fst (detect_poi_deviations ?env ?docs))"
    "deviation_key d = sample_key" "d_current_level d = ''N1''" "previous_state d = None"
    by (auto simp: sample_env_fields sample_thresholds default_items sample_session_key)
  have "length (fst (detect_poi_deviations ?env ?docs)) \<le> 1"
    using single_row_cycle[of ?env "sample_row 3" ?docs, OF _ refl]
    by (simp add: sample_env_fields split: sum.splits option.splits)
  with d(1) have "fst (detect_poi_deviations ?env ?docs) = [d]"
    by (cases "fst (detect_poi_deviations ?env ?docs)") auto
  with d c show ?thesis by (simp add: sample_env_fields)
qed


text \<open>
  C10, as stated, leaves out the factor 1.1 applied when the prior state has more than one
  history entry: a session without entry timestamp then scores 0.77, not 0.7.
\<close>

theorem confidence_boosted_by_history:
  "calculate_confidence_score sample_session_no_entry
     (Some (sample_state ''N1'' LA_Missing [sample_entry ''N1'', sample_entry ''N1''])) = 77 / 100 \<and>
   spec_confidence sample_session_no_entry = 7 / 10"
  by (simp add: calculate_confidence_score_def spec_confidence_def sample_session_no_entry_def
        session_of_row_def sample_row_def sample_state_fields str_truthy_def)

text \<open>
  C10. The confidence score lies in (0,1]. It is the baseline 1 times 0.7 for a missing
  entry timestamp, times 0.9 for an absent or unknown group, times 1.1 when the prior state
  has more than one history entry, capped at 1; without such a prior state it is the
  discounted baseline alone. Every deviation carries such a score.
\<close>

theorem confidence_score_range:
  "0 < calculate_confidence_score s current_state \<and>
   calculate_confidence_score s current_state \<le> 1 \<and>
   calculate_confidence_score s current_state =
     min 1 ((if entry_timestamp s = None then 7 / 10 else 1) *
            (if \<not> str_truthy (poi_group s) \<or> poi_group s = Some ''Unknown'' then 9 / 10 else 1) *
            (if (case current_state of None \<Rightarrow> False
                 | Some st \<Rightarrow> length (escalation_history st) > 1) then 11 / 10 else 1)) \<and>
   ((case current_state of None \<Rightarrow> True | Some st \<Rightarrow> length (escalation_history st) \<le> 1) \<longrightarrow>
      calculate_confidence_score s current_state = spec_confidence s) \<and>
   (analyze_session_for_deviation s cs pt det = Inr (Some d) \<longrightarrow>
      0 < confidence_score d \<and> confidence_score d \<le> 1)"
proof -
  have r: "0 < calculate_confidence_score s' c \<and> calculate_confidence_score s' c \<le> 1" for s' c
    by (auto simp: calculate_confidence_score_def Let_def split: option.splits)
  have f: "calculate_confidence_score s current_state =
     min 1 ((if entry_timestamp s = None then 7 / 10 else 1) *
            (if \<not> str_truthy (poi_group s) \<or> poi_group s = Some ''Unknown'' then 9 / 10 else 1) *
            (if (case current_state of None \<Rightarrow> False
                 | Some st \<Rightarrow> length (escalation_history st) > 1) then 11 / 10 else 1))"
    by (auto simp: calculate_confidence_score_def Let_def split: option.splits)
  have a: "0 < confidence_score d \<and> confidence_score d \<le> 1"
    if "analyze_session_for_deviation s cs pt det = Inr (Some d)"
    using analyze_Some(7)[OF that] r by simp
  have p: "calculate_confidence_score s current_state = spec_confidence s"
    if "case current_state of None \<Rightarrow> True | Some st \<Rightarrow> length (escalation_history st) \<le> 1"
    using that
    by (auto simp: calculate_confidence_score_def spec_confidence_def Let_def split: option.splits)
  from r f a p show ?thesis by blast
qed

theorem confidence_score_range_witness:
  "calculate_confidence_score sample_session_no_entry None = 7 / 10 \<and>
   spec_confidence sample_session_no_entry = 7 / 10 \<and>
   calculate_confidence_score sample_session_no_entry
     (Some (sample_state ''N1'' LA_Missing [sample_entry ''N1'', sample_entry ''N1''])) = 77 / 100"
  using confidence_score_range[of sample_session_no_entry None]
    confidence_score_range[of sample_session_no_entry
      "Some (sample_state ''N1'' LA_Missing [sample_entry ''N1'', sample_entry ''N1''])"]
  by (simp add: spec_confidence_def sample_session_no_entry_def
        session_of_row_def sample_row_def sample_state_fields str_truthy_def)


subsection \<open>Alert title\<close>

lemma str_remove_single: "str_remove [c] s = filter (\<lambda>x. x \<noteq> c) s"
  by (induction s) auto

lemma str_remove_absent: "\<not> sublist old s \<Longrightarrow> str_remove old s = s"
proof (induction s)
  case Nil
  then show ?case by simp
next
  case (Cons c cs)
  have "\<not> sublist old cs" using Cons.prems by (auto simp: sublist_Cons_right)
  moreover have "take (length old) (c # cs) \<noteq> old"
  proof
    assume "take (length old) (c # cs) = old"
    then have "prefix old (c # cs)" by (metis take_is_prefix)
    then show False using Cons.prems by (auto dest: prefix_imp_sublist)
  qed
  ultimately show ?case using Cons.IH by simp
qed


lemma normalize_filter:
  assumes "\<not> sublist [CHR 0xC3, CHR 0x82, CHR 0xC2, CHR 0xBF] (filter (\<lambda>x. x \<noteq> CHR '' '') poi)"
  shows "normalize_poi_name poi = filter (\<lambda>x. x \<notin> set stripped_chars) poi"
proof -
  have "normalize_poi_name poi =
     filter (\<lambda>x. x \<noteq> CHR '']'') (filter (\<lambda>x. x \<noteq> CHR ''['') (filter (\<lambda>x. x \<noteq> CHR '')'')
       (filter (\<lambda>x. x \<noteq> CHR ''('') (filter (\<lambda>x. x \<noteq> CHR 0x5C) (filter (\<lambda>x. x \<noteq> CHR ''/'')
       (filter (\<lambda>x. x \<noteq> CHR ''.'') (filter (\<lambda>x. x \<noteq> CHR ''-'') (filter (\<lambda>x. x \<noteq> CHR ''?'')
       (filter (\<lambda>x. x \<noteq> CHR '' '') poi)))))))))"
    using assms
    by (simp add: normalize_poi_name_def special_chars_def str_remove_single str_remove_absent)
  also have "\<dots> = filter (\<lambda>x. x \<notin> set stripped_chars) poi"
    by (simp add: stripped_chars_def) (rule filter_cong, auto)
  finally show ?thesis .
qed

lemma closed_hour_same:
  fixes a b :: datetime
  shows "tzoff a = tzoff b \<Longrightarrow> wall a div us_per_hour = wall b div us_per_hour \<Longrightarrow>
   replace_closed_hour a = replace_closed_hour b"
  by (simp add: replace_closed_hour_def minus_mod_eq_mult_div)

lemma closed_hour_fields:
  assumes "sys_off mod 3600 = 0" and "case tzoff d of None \<Rightarrow> True | Some off \<Rightarrow> off mod 3600 = 0"
  shows "dt_minute (astimezone sys_off CAMPO_GRANDE_TZ (replace_closed_hour d)) = 0"
    and "dt_second (astimezone sys_off CAMPO_GRANDE_TZ (replace_closed_hour d)) = 0"
proof -
  let ?w = "wall (astimezone sys_off CAMPO_GRANDE_TZ (replace_closed_hour d))"
  obtain src where src: "src mod 3600 = 0"
    "?w = (wall d - wall d mod us_per_hour) + (CAMPO_GRANDE_TZ - src) * us_per_second"
    using assms by (cases "tzoff d") (auto simp: astimezone_def replace_closed_hour_def Let_def)
  have "us_per_hour dvd (wall d - wall d mod us_per_hour)"
    by (simp add: minus_mod_eq_mult_div)
  moreover have "3600 dvd (CAMPO_GRANDE_TZ - src)"
    using src(1) by (simp add: CAMPO_GRANDE_TZ_def dvd_diff mod_eq_0_iff_dvd)
  then have "3600 * us_per_second dvd (CAMPO_GRANDE_TZ - src) * us_per_second"
    by (rule mult_dvd_mono) simp
  then have "us_per_hour dvd (CAMPO_GRANDE_TZ - src) * us_per_second"
    by (simp add: us_per_hour_def us_per_second_def)
  ultimately have h: "us_per_hour dvd ?w" using src(2) by simp
  then have m: "?w mod us_per_hour = 0" by (simp add: mod_eq_0_iff_dvd)
  show "dt_minute (astimezone sys_off CAMPO_GRANDE_TZ (replace_closed_hour d)) = 0"
    using m by (simp add: dt_minute_def)
  have "60 * us_per_second dvd us_per_hour" by (simp add: us_per_hour_def us_per_second_def)
  from this h have "60 * us_per_second dvd ?w" by (rule dvd_trans)
  then show "dt_second (astimezone sys_off CAMPO_GRANDE_TZ (replace_closed_hour d)) = 0"
    by (simp add: dt_second_def mod_eq_0_iff_dvd)
qed

lemma closed_hour_fields':
  assumes "whole_hours sys_off d"
  shows "dt_minute (astimezone sys_off CAMPO_GRANDE_TZ (replace_closed_hour d)) = 0"
    and "dt_second (astimezone sys_off CAMPO_GRANDE_TZ (replace_closed_hour d)) = 0"
proof -
  have a: "sys_off' mod 3600 = 0 \<and> (case tzoff d of None \<Rightarrow> True | Some off \<Rightarrow> off mod 3600 = 0) \<and>
       astimezone sys_off CAMPO_GRANDE_TZ (replace_closed_hour d) =
       astimezone sys_off' CAMPO_GRANDE_TZ (replace_closed_hour d)"
    if "sys_off' = (case tzoff d of None \<Rightarrow> sys_off | Some off \<Rightarrow> 0)" for sys_off'
    using assms that
    by (cases "tzoff d") (auto simp: whole_hours_def astimezone_def replace_closed_hour_def)
  from a[OF refl] closed_hour_fields
  show "dt_minute (astimezone sys_off CAMPO_GRANDE_TZ (replace_closed_hour d)) = 0"
    and "dt_second (astimezone sys_off CAMPO_GRANDE_TZ (replace_closed_hour d)) = 0"
    by metis+
qed

text \<open>
  C9, as stated, has all whitespace removed from the POI name. Only the space character is:
  a tab inside the name stays.
\<close>
theorem tab_survives_normalization:
  "normalize_poi_name [CHR ''A'', CHR 0x09, CHR ''B''] = [CHR ''A'', CHR 0x09, CHR ''B'']"
  by (simp add: normalize_poi_name_def special_chars_def)

text \<open>
  C9. The alert title is branch, normalized POI, level, date (ddmmyyyy) and time (hhmmss)
  joined by underscores, where date and time are those of the closed hour of the detection
  (minutes and seconds zeroed, so the time ends in 0000 when the zones differ by whole hours)
  read in the Campo Grande zone. Two deviations of the same key and level detected within
  the same clock hour have the same title. The normalized name of a deviation is that of its
  session's POI: the name without spaces and without the characters ? - . / ( ) [ ] and
  the backslash (and without the two-character sequence U+00C2 U+00BF, which the source also removes);
  "Carregamento Fabrica RRP " gives "CarregamentoFabricaRRP".
\<close>
theorem alert_title_format:
  "generate_alert_title sys_off d =
     d_filial d @ ''_'' @ d_poi_normalized d @ ''_'' @ d_current_level d @ ''_''
       @ strftime_dmY (local_closed_hour sys_off d) @ ''_''
       @ strftime_HMS (local_closed_hour sys_off d) \<and>
   (whole_hours sys_off (detection_timestamp d) \<longrightarrow>
      strftime_HMS (local_closed_hour sys_off d)
        = pad2 (dt_hour (local_closed_hour sys_off d)) @ ''0000'') \<and>
   (analyze_session_for_deviation s cs pt det = Inr (Some d) \<longrightarrow>
      d_poi_normalized d = normalize_poi_name (poi_name s) \<and> d_filial d = filial s \<and>
      detection_timestamp d = det) \<and>
   (d_filial d = d_filial d' \<and> d_poi_normalized d = d_poi_normalized d' \<and>
    d_current_level d = d_current_level d' \<and>
    tzoff (detection_timestamp d) = tzoff (detection_timestamp d') \<and>
    wall (detection_timestamp d) div us_per_hour = wall (detection_timestamp d') div us_per_hour
      \<longrightarrow> generate_alert_title sys_off d = generate_alert_title sys_off d') \<and>
   (\<not> sublist [CHR 0xC3, CHR 0x82, CHR 0xC2, CHR 0xBF] (filter (\<lambda>x. x \<noteq> CHR '' '') poi) \<longrightarrow>
      normalize_poi_name poi = filter (\<lambda>x. x \<notin> set stripped_chars) poi) \<and>
   normalize_poi_name ''Carregamento Fabrica RRP '' = ''CarregamentoFabricaRRP''"
proof -
  have t: "generate_alert_title sys_off d =
     d_filial d @ ''_'' @ d_poi_normalized d @ ''_'' @ d_current_level d @ ''_''
       @ strftime_dmY (local_closed_hour sys_off d) @ ''_''
       @ strftime_HMS (local_closed_hour sys_off d)" for d
    by (simp add: generate_alert_title_def local_closed_hour_def Let_def)
  have z: "strftime_HMS (local_closed_hour sys_off d)
        = pad2 (dt_hour (local_closed_hour sys_off d)) @ ''0000''"
    if "whole_hours sys_off (detection_timestamp d)"
    using closed_hour_fields'[OF that]
    by (simp add: strftime_HMS_def local_closed_hour_def pad2_def digit_def)
  have a: "d_poi_normalized d = normalize_poi_name (poi_name s) \<and> d_filial d = filial s \<and>
      detection_timestamp d = det"
    if "analyze_session_for_deviation s cs pt det = Inr (Some d)"
    using that
    by (auto simp: analyze_session_for_deviation_def Let_def
          split: option.splits sum.splits bool.splits)
  have e: "generate_alert_title sys_off d = generate_alert_title sys_off d'"
    if "d_filial d = d_filial d'" "d_poi_normalized d = d_poi_normalized d'"
      "d_current_level d = d_current_level d'"
      "tzoff (detection_timestamp d) = tzoff (detection_timestamp d')"
      "wall (detection_timestamp d) div us_per_hour = wall (detection_timestamp d') div us_per_hour"
    using that closed_hour_same[OF that(4,5)] by (simp add: t local_closed_hour_def)
  have n: "normalize_poi_name ''Carregamento Fabrica RRP '' = ''CarregamentoFabricaRRP''"
    by (simp add: normalize_poi_name_def special_chars_def)
  from t z a e n normalize_filter show ?thesis by blast
qed

lemma sample_titles:
  "strftime_dmY (local_closed_hour 0 (sample_deviation sample_detection)) = ''07082025''"
  "dt_hour (local_closed_hour 0 (sample_deviation sample_detection)) = 12"
  by code_simp+

theorem alert_title_format_witness:
  "generate_alert_title 0 (sample_deviation sample_detection)
     = ''RRP_OficinaJSL_N1_07082025_120000'' \<and>
   generate_alert_title 0 (sample_deviation sample_detection_later)
     = ''RRP_OficinaJSL_N1_07082025_120000'' \<and>
   normalize_poi_name ''A-B (C)'' = ''ABC''"
proof -
  have w: "whole_hours 0 (detection_timestamp (sample_deviation det))" if "tzoff det = None" for det
    using that by (simp add: whole_hours_def sample_deviation_def)
  have f: "d_filial (sample_deviation det) = ''RRP''"
    "d_poi_normalized (sample_deviation det) = ''OficinaJSL''"
    "d_current_level (sample_deviation det) = ''N1''"
    "detection_timestamp (sample_deviation det) = det" for det
    by (simp_all add: sample_deviation_def)
  have h: "wall sample_detection div us_per_hour = wall sample_detection_later div us_per_hour"
    "tzoff sample_detection = None" "tzoff sample_detection_later = None"
    by (simp_all add: sample_detection_def sample_detection_later_def us_per_hour_def)
  have s: "\<not> sublist [CHR 0xC3, CHR 0x82, CHR 0xC2, CHR 0xBF] (filter (\<lambda>x. x \<noteq> CHR '' '') ''A-B (C)'')"
    by (auto simp: sublist_def Cons_eq_append_conv append_eq_Cons_conv)
  note a = alert_title_format[of 0 "sample_deviation sample_detection" _ _ _ _
             "sample_deviation sample_detection_later" "''A-B (C)''"]
  from a[THEN conjunct1] have 1: "generate_alert_title 0 (sample_deviation sample_detection) =
      ''RRP'' @ ''_'' @ ''OficinaJSL'' @ ''_'' @ ''N1'' @ ''_'' @ ''07082025'' @ ''_''
        @ strftime_HMS (local_closed_hour 0 (sample_deviation sample_detection))"
    by (simp only: f sample_titles)
  from a[THEN conjunct2, THEN conjunct1] w[of sample_detection] h(2)
  have 2: "strftime_HMS (local_closed_hour 0 (sample_deviation sample_detection)) = ''120000''"
    by (simp add: sample_titles pad2_def digit_def)
  have 3: "generate_alert_title 0 (sample_deviation sample_detection) =
      generate_alert_title 0 (sample_deviation sample_detection_later)"
    by (rule a[THEN conjunct2, THEN conjunct2, THEN conjunct2, THEN conjunct1, rule_format])
       (simp add: f h)
  from a[THEN conjunct2, THEN conjunct2, THEN conjunct2, THEN conjunct2, THEN conjunct1] s have 4: "normalize_poi_name ''A-B (C)'' = ''ABC''"
    by (simp add: stripped_chars_def)
  from 1 2 have 5: "generate_alert_title 0 (sample_deviation sample_detection)
     = ''RRP_OficinaJSL_N1_07082025_120000''" by simp
  from 3 4 5 show ?thesis by simp
qed

section \<open>Properties of the SLA evaluator\<close>

lemma keys_grupos_append:
  "fst ` set (grupos_append gs k v) = insert k (fst ` set gs)"
  by (induction gs k v rule: grupos_append.induct) auto

lemma distinct_grupos_append:
  "distinct (map fst gs) \<Longrightarrow> distinct (map fst (grupos_append gs k v))"
proof (induction gs k v rule: grupos_append.induct)
  case (1 chave v)
  then show ?case by simp
next
  case (2 k vs rest chave v)
  then show ?case by (auto simp: keys_grupos_append)
qed

lemma lista_grupos_append:
  "grupo_lista (grupos_append gs k v) k' = grupo_lista gs k' @ (if k' = k then [v] else [])"
  by (induction gs k v rule: grupos_append.induct) (auto simp: grupo_lista_def)

lemma foldl_grupos:
  "distinct (map fst gs) \<Longrightarrow>
     distinct (map fst (foldl (\<lambda>grupos v. grupos_append grupos (kf v) v) gs vs)) \<and>
     fst ` set (foldl (\<lambda>grupos v. grupos_append grupos (kf v) v) gs vs) = fst ` set gs \<union> kf ` set vs \<and>
     grupo_lista (foldl (\<lambda>grupos v. grupos_append grupos (kf v) v) gs vs) k
       = grupo_lista gs k @ filter (\<lambda>v. kf v = k) vs"
proof (induction vs arbitrary: gs)
  case Nil
  then show ?case by simp
next
  case (Cons v vs)
  from Cons.IH[OF distinct_grupos_append[OF Cons.prems, of "kf v" v]]
  show ?case by (simp add: keys_grupos_append lista_grupos_append)
qed

lemma agrupar_veiculos_facts:
  "distinct (map fst (agrupar_veiculos vs))"
  "fst ` set (agrupar_veiculos vs) = chave_grupo ` set vs"
  "grupo_lista (agrupar_veiculos vs) k = filter (\<lambda>v. chave_grupo v = k) vs"
  using foldl_grupos[of "[]" chave_grupo vs k]
  by (simp_all add: agrupar_veiculos_def grupo_lista_def)

lemma agrupar_veiculos_lookup:
  "map_of (agrupar_veiculos vs) k =
     (if k \<in> chave_grupo ` set vs then Some (filter (\<lambda>v. chave_grupo v = k) vs) else None)"
proof (cases "map_of (agrupar_veiculos vs) k")
  case None
  then have "k \<notin> fst ` set (agrupar_veiculos vs)" by (simp add: map_of_eq_None_iff)
  with None show ?thesis by (simp add: agrupar_veiculos_facts(2))
next
  case (Some ws)
  then have "k \<in> fst ` set (agrupar_veiculos vs)"
    by (metis map_of_eq_None_iff option.distinct(1))
  moreover from Some have "grupo_lista (agrupar_veiculos vs) k = ws" by (simp add: grupo_lista_def)
  ultimately show ?thesis using Some by (simp add: agrupar_veiculos_facts)
qed

lemma split_underscore_join:
  "CHR ''_'' \<notin> set f \<Longrightarrow> split_underscore (f @ CHR ''_'' # g) = Inr (f, g)"
proof -
  assume a: "CHR ''_'' \<notin> set f"
  then have "takeWhile (\<lambda>c. c \<noteq> CHR ''_'') (f @ CHR ''_'' # g) = f"
    by (induction f) auto
  moreover from a have "dropWhile (\<lambda>c. c \<noteq> CHR ''_'') (f @ CHR ''_'' # g) = CHR ''_'' # g"
    by (induction f) auto
  ultimately show ?thesis by (simp add: split_underscore_def)
qed

lemma join_inject:
  "CHR ''_'' \<notin> set f \<Longrightarrow> CHR ''_'' \<notin> set f' \<Longrightarrow>
     f @ CHR ''_'' # g = f' @ CHR ''_'' # g' \<longleftrightarrow> f = f' \<and> g = g'"
proof
  assume a: "CHR ''_'' \<notin> set f" "CHR ''_'' \<notin> set f'" and e: "f @ CHR ''_'' # g = f' @ CHR ''_'' # g'"
  from e have "split_underscore (f @ CHR ''_'' # g) = split_underscore (f' @ CHR ''_'' # g')" by simp
  with a show "f = f' \<and> g = g'" by (simp add: split_underscore_join)
qed simp

lemma verificar_grupos_step:
  assumes "CHR ''_'' \<notin> set f"
  shows "verificar_grupos limites ts ((f @ ''_'' @ g, ws) # rest) =
     (case verificar_grupos limites ts rest of
        Inl e \<Rightarrow> Inl e
      | Inr ds \<Rightarrow> Inr (desvio_do_grupo limites ts f g ws @ ds))"
  using assms
  by (auto simp: split_underscore_join desvio_do_grupo_def split: option.splits sum.splits)

lemma desvio_do_grupo_filter:
  "filter (\<lambda>d. dv_filial d = f \<and> dv_grupo d = g) (desvio_do_grupo limites ts f' g' ws) =
     (if f = f' \<and> g = g' then desvio_do_grupo limites ts f' g' ws else [])"
  by (auto simp: desvio_do_grupo_def split: option.splits)

lemma desvio_do_grupo_filial:
  "d \<in> set (desvio_do_grupo limites ts f g ws) \<Longrightarrow> dv_filial d = f"
  by (auto simp: desvio_do_grupo_def split: option.splits if_splits)

lemma verificar_grupos_result:
  assumes "well_keyed gs" and "distinct (map fst gs)"
  shows "\<exists>ds. verificar_grupos limites ts gs = Inr ds \<and>
     (\<forall>d\<in>set ds. CHR ''_'' \<notin> set (dv_filial d)) \<and>
     (\<forall>f g. CHR ''_'' \<notin> set f \<longrightarrow>
        filter (\<lambda>d. dv_filial d = f \<and> dv_grupo d = g) ds =
          (case map_of gs (f @ ''_'' @ g) of
             None \<Rightarrow> []
           | Some ws \<Rightarrow> desvio_do_grupo limites ts f g ws))"
  using assms
proof (induction gs)
  case Nil
  then show ?case by simp
next
  case (Cons kv gs)
  obtain k ws where kv: "kv = (k, ws)" by (cases kv)
  from Cons.prems(1) kv obtain f0 g0 where k: "k = f0 @ ''_'' @ g0" "CHR ''_'' \<notin> set f0"
    by (auto simp: well_keyed_def)
  have wk: "well_keyed gs" using Cons.prems(1) by (simp add: well_keyed_def)
  have di: "distinct (map fst gs)" "k \<notin> fst ` set gs" using Cons.prems(2) kv by auto
  from Cons.IH[OF wk di(1)] obtain ds where ds: "verificar_grupos limites ts gs = Inr ds"
    "\<forall>d\<in>set ds. CHR ''_'' \<notin> set (dv_filial d)"
    "\<And>f g. CHR ''_'' \<notin> set f \<Longrightarrow>
        filter (\<lambda>d. dv_filial d = f \<and> dv_grupo d = g) ds =
          (case map_of gs (f @ ''_'' @ g) of
             None \<Rightarrow> []
           | Some ws \<Rightarrow> desvio_do_grupo limites ts f g ws)"
    by blast
  have none: "map_of gs (f0 @ ''_'' @ g0) = None"
    using di(2) k(1) by (simp add: map_of_eq_None_iff)
  have old: "filter (\<lambda>d. dv_filial d = f0 \<and> dv_grupo d = g0) ds = []"
    using ds(3)[OF k(2), of g0] none by simp
  have res: "verificar_grupos limites ts (kv # gs) = Inr (desvio_do_grupo limites ts f0 g0 ws @ ds)"
    by (simp only: kv k(1) verificar_grupos_step[OF k(2)] ds(1) sum.case)
  have 1: "\<forall>d\<in>set (desvio_do_grupo limites ts f0 g0 ws @ ds). CHR ''_'' \<notin> set (dv_filial d)"
    using ds(2) k(2) by (auto dest: desvio_do_grupo_filial)
  have 2: "filter (\<lambda>d. dv_filial d = f \<and> dv_grupo d = g) (desvio_do_grupo limites ts f0 g0 ws @ ds) =
          (case map_of (kv # gs) (f @ ''_'' @ g) of
             None \<Rightarrow> []
           | Some ws \<Rightarrow> desvio_do_grupo limites ts f g ws)"
    if f: "CHR ''_'' \<notin> set f" for f g
  proof (cases "f = f0 \<and> g = g0")
    case True
    then show ?thesis using old by (simp add: desvio_do_grupo_filter kv k(1))
  next
    case False
    then have "f @ ''_'' @ g \<noteq> k" using join_inject[OF f k(2), of g g0] k(1) by auto
    then show ?thesis using False ds(3)[OF f, of g] by (auto simp: desvio_do_grupo_filter kv)
  qed
  from res 1 2 show ?case by blast
qed

lemma analisar_desvios_sla_result:
  assumes "\<forall>v\<in>set vs. CHR ''_'' \<notin> set (v_filial v)"
  shows "\<exists>ds. analisar_desvios_sla limites vs ts = Inr ds \<and>
     (\<forall>d\<in>set ds. CHR ''_'' \<notin> set (dv_filial d)) \<and>
     (\<forall>f g. CHR ''_'' \<notin> set f \<longrightarrow>
        filter (\<lambda>d. dv_filial d = f \<and> dv_grupo d = g) ds =
          (if veiculos_do_grupo f g vs = [] then []
           else desvio_do_grupo limites ts f g (veiculos_do_grupo f g vs)))"
proof -
  have wk: "well_keyed (agrupar_veiculos vs)"
  proof -
    have "\<exists>f g. k = f @ ''_'' @ g \<and> CHR ''_'' \<notin> set f" if "(k, ws) \<in> set (agrupar_veiculos vs)" for k ws
    proof -
      from that have "k \<in> chave_grupo ` set vs"
        using agrupar_veiculos_facts(2)[of vs] by (metis fst_conv imageI)
      then show ?thesis using assms by (auto simp: chave_grupo_def)
    qed
    then show ?thesis unfolding well_keyed_def by blast
  qed
  have lk: "map_of (agrupar_veiculos vs) (f @ CHR ''_'' # g) =
      (if veiculos_do_grupo f g vs = [] then None else Some (veiculos_do_grupo f g vs))"
    if f: "CHR ''_'' \<notin> set f" for f g
  proof -
    have e: "chave_grupo v = f @ CHR ''_'' # g \<longleftrightarrow> v_filial v = f \<and> v_grupo v = g" if "v \<in> set vs" for v
      using that assms f join_inject[of "v_filial v" f "v_grupo v" g] by (auto simp: chave_grupo_def)
    then have fl: "filter (\<lambda>v. chave_grupo v = f @ CHR ''_'' # g) vs = veiculos_do_grupo f g vs"
      unfolding veiculos_do_grupo_def by (intro filter_cong) auto
    have "f @ CHR ''_'' # g \<in> chave_grupo ` set vs \<longleftrightarrow> veiculos_do_grupo f g vs \<noteq> []"
      unfolding fl[symmetric] filter_empty_conv by (simp add: image_iff) metis
    then show ?thesis by (simp add: agrupar_veiculos_lookup fl)
  qed
  from verificar_grupos_result[OF wk agrupar_veiculos_facts(1), of limites ts]
  show ?thesis unfolding analisar_desvios_sla_def by (auto simp: lk)
qed

lemma obter_filial_poi_no_underscore: "CHR ''_'' \<notin> set (obter_filial_poi nome)"
  by (simp add: obter_filial_poi_def)

lemma processar_evento_facts:
  "processar_evento sys_off janelas agora ev = Some v \<Longrightarrow>
     CHR ''_'' \<notin> set (v_filial v) \<and> v_grupo v \<noteq> Nao_Mapeado \<and>
     v_grupo v = sla_obter_grupo_poi (v_poi v)"
  by (auto simp: processar_evento_def Let_def obter_filial_poi_no_underscore
        split: if_splits date_field.splits sum.splits)

lemma processar_eventos_api_facts:
  "v \<in> set (processar_eventos_api sys_off evs janelas agora) \<Longrightarrow>
     CHR ''_'' \<notin> set (v_filial v) \<and> v_grupo v \<noteq> Nao_Mapeado"
  by (auto simp: processar_eventos_api_def List.map_filter_def dest: processar_evento_facts)

text \<open>
  C4. For vehicles whose branch name holds no underscore (the branch names the classifier
  gives hold none), the evaluator returns a list of deviations in which a (branch, group)
  pair with a configured, non-negative limit has a deviation exactly when the number of its
  open sessions is strictly greater than the limit: that deviation is then the only one of
  the pair and carries the count, the limit, the excess and the sessions. A count equal to
  the limit gives no deviation, a count of limit + 1 gives exactly one with that count.
\<close>
theorem sla_deviation_strictly_above_limit:
  assumes "\<forall>v\<in>set vs. CHR ''_'' \<notin> set (v_filial v)"
  shows "\<exists>ds. analisar_desvios_sla limites vs ts = Inr ds \<and>
     (\<forall>f g lm. limite_de limites f g = Some lm \<and> 0 \<le> lm \<longrightarrow>
        filter (\<lambda>d. dv_filial d = f \<and> dv_grupo d = g) ds =
          (if int (length (veiculos_do_grupo f g vs)) > lm
           then [\<lparr>dv_filial = f, dv_grupo = g,
                  qtd_veiculos = int (length (veiculos_do_grupo f g vs)), limite_sla = lm,
                  excesso = int (length (veiculos_do_grupo f g vs)) - lm,
                  dv_veiculos = veiculos_do_grupo f g vs, timestamp_verificacao = ts\<rparr>]
           else []) \<and>
        (int (length (veiculos_do_grupo f g vs)) = lm \<longrightarrow>
           filter (\<lambda>d. dv_filial d = f \<and> dv_grupo d = g) ds = []) \<and>
        (int (length (veiculos_do_grupo f g vs)) = lm + 1 \<longrightarrow>
           (\<exists>d. filter (\<lambda>d. dv_filial d = f \<and> dv_grupo d = g) ds = [d] \<and>
                qtd_veiculos d = lm + 1)))"
proof -
  from analisar_desvios_sla_result[OF assms, of limites ts]
  obtain ds where ds: "analisar_desvios_sla limites vs ts = Inr ds"
    "\<forall>d\<in>set ds. CHR ''_'' \<notin> set (dv_filial d)"
    "\<And>f g. CHR ''_'' \<notin> set f \<Longrightarrow>
        filter (\<lambda>d. dv_filial d = f \<and> dv_grupo d = g) ds =
          (if veiculos_do_grupo f g vs = [] then []
           else desvio_do_grupo limites ts f g (veiculos_do_grupo f g vs))"
    by blast
  have main: "filter (\<lambda>d. dv_filial d = f \<and> dv_grupo d = g) ds =
          (if int (length (veiculos_do_grupo f g vs)) > lm
           then [\<lparr>dv_filial = f, dv_grupo = g,
                  qtd_veiculos = int (length (veiculos_do_grupo f g vs)), limite_sla = lm,
                  excesso = int (length (veiculos_do_grupo f g vs)) - lm,
                  dv_veiculos = veiculos_do_grupo f g vs, timestamp_verificacao = ts\<rparr>]
           else [])"
    if l: "limite_de limites f g = Some lm" "0 \<le> lm" for f g lm
  proof (cases "CHR ''_'' \<in> set f")
    case True
    have "filter (\<lambda>d. dv_filial d = f \<and> dv_grupo d = g) ds = []"
      using ds(2) True by (auto simp: filter_empty_conv)
    moreover have "veiculos_do_grupo f g vs = []"
      using assms True by (auto simp: veiculos_do_grupo_def filter_empty_conv)
    ultimately show ?thesis using l(2) by simp
  next
    case False
    show ?thesis using ds(3)[OF False, of g] l by (auto simp: desvio_do_grupo_def)
  qed
  have "filter (\<lambda>d. dv_filial d = f \<and> dv_grupo d = g) ds =
          (if int (length (veiculos_do_grupo f g vs)) > lm
           then [\<lparr>dv_filial = f, dv_grupo = g,
                  qtd_veiculos = int (length (veiculos_do_grupo f g vs)), limite_sla = lm,
                  excesso = int (length (veiculos_do_grupo f g vs)) - lm,
                  dv_veiculos = veiculos_do_grupo f g vs, timestamp_verificacao = ts\<rparr>]
           else []) \<and>
        (int (length (veiculos_do_grupo f g vs)) = lm \<longrightarrow>
           filter (\<lambda>d. dv_filial d = f \<and> dv_grupo d = g) ds = []) \<and>
        (int (length (veiculos_do_grupo f g vs)) = lm + 1 \<longrightarrow>
           (\<exists>d. filter (\<lambda>d. dv_filial d = f \<and> dv_grupo d = g) ds = [d] \<and>
                qtd_veiculos d = lm + 1))"
    if l: "limite_de limites f g = Some lm" "0 \<le> lm" for f g lm
    using main[OF l] by simp
  with ds(1) show ?thesis by blast
qed

lemma sample_limite: "limite_de sla_limites ''RRP'' Fabrica = Some 6"
  by (simp add: limite_de_def sla_limites_def dict_get_def Fabrica_def Manutencao_def)

lemma sample_veiculo_fields:
  "v_filial (sample_veiculo p) = ''RRP''" "v_grupo (sample_veiculo p) = Fabrica"
  by (simp_all add: sample_veiculo_def)

theorem sla_deviation_strictly_above_limit_witness:
  "(\<exists>ds. analisar_desvios_sla sla_limites (map sample_veiculo sample_placas) sample_detection = Inr ds \<and>
         filter (\<lambda>d. dv_filial d = ''RRP'' \<and> dv_grupo d = Fabrica) ds = []) \<and>
   (\<exists>ds. analisar_desvios_sla sla_limites (map sample_veiculo (''AAA0007'' # sample_placas))
            sample_detection = Inr ds \<and>
         map qtd_veiculos (filter (\<lambda>d. dv_filial d = ''RRP'' \<and> dv_grupo d = Fabrica) ds) = [7])"
proof -
  have u: "\<forall>v\<in>set (map sample_veiculo ps). CHR ''_'' \<notin> set (v_filial v)" for ps
    by (simp add: sample_veiculo_fields)
  have n: "veiculos_do_grupo ''RRP'' Fabrica (map sample_veiculo ps) = map sample_veiculo ps" for ps
    by (simp add: veiculos_do_grupo_def sample_veiculo_fields)
  have l6: "int (length (veiculos_do_grupo ''RRP'' Fabrica (map sample_veiculo sample_placas))) = 6"
    unfolding n by (simp add: sample_placas_def)
  have l7: "int (length (veiculos_do_grupo ''RRP'' Fabrica
               (map sample_veiculo (''AAA0007'' # sample_placas)))) = 6 + 1"
    unfolding n by (simp add: sample_placas_def)
  have lim: "limite_de sla_limites ''RRP'' Fabrica = Some 6 \<and> (0::int) \<le> 6"
    by (simp add: sample_limite)
  from sla_deviation_strictly_above_limit[OF u[of sample_placas], of sla_limites sample_detection]
  obtain ds where ab: "analisar_desvios_sla sla_limites (map sample_veiculo sample_placas) sample_detection = Inr ds
    \<and> (\<forall>f g lm. limite_de sla_limites f g = Some lm \<and> 0 \<le> lm \<longrightarrow>
        filter (\<lambda>d. dv_filial d = f \<and> dv_grupo d = g) ds =
          (if int (length (veiculos_do_grupo f g (map sample_veiculo sample_placas))) > lm
           then [\<lparr>dv_filial = f, dv_grupo = g,
                  qtd_veiculos = int (length (veiculos_do_grupo f g (map sample_veiculo sample_placas))), limite_sla = lm,
                  excesso = int (length (veiculos_do_grupo f g (map sample_veiculo sample_placas))) - lm,
                  dv_veiculos = veiculos_do_grupo f g (map sample_veiculo sample_placas), timestamp_verificacao = sample_detection\<rparr>]
           else []) \<and>
        (int (length (veiculos_do_grupo f g (map sample_veiculo sample_placas))) = lm \<longrightarrow>
           filter (\<lambda>d. dv_filial d = f \<and> dv_grupo d = g) ds = []) \<and>
        (int (length (veiculos_do_grupo f g (map sample_veiculo sample_placas))) = lm + 1 \<longrightarrow>
           (\<exists>d. filter (\<lambda>d. dv_filial d = f \<and> dv_grupo d = g) ds = [d] \<and>
                qtd_veiculos d = lm + 1)))" ..
  note a = ab[THEN conjunct1] and b = ab[THEN conjunct2]
  note c = b[rule_format, OF lim, THEN conjunct2, THEN conjunct1, rule_format, OF l6]
  let ?vs7 = "map sample_veiculo (''AAA0007'' # sample_placas)"
  from sla_deviation_strictly_above_limit[OF u[of "''AAA0007'' # sample_placas"], of sla_limites sample_detection]
  obtain ds' where ab': "analisar_desvios_sla sla_limites ?vs7 sample_detection = Inr ds'
    \<and> (\<forall>f g lm. limite_de sla_limites f g = Some lm \<and> 0 \<le> lm \<longrightarrow>
        filter (\<lambda>d. dv_filial d = f \<and> dv_grupo d = g) ds' =
          (if int (length (veiculos_do_grupo f g ?vs7)) > lm
           then [\<lparr>dv_filial = f, dv_grupo = g,
                  qtd_veiculos = int (length (veiculos_do_grupo f g ?vs7)), limite_sla = lm,
                  excesso = int (length (veiculos_do_grupo f g ?vs7)) - lm,
                  dv_veiculos = veiculos_do_grupo f g ?vs7, timestamp_verificacao = sample_detection\<rparr>]
           else []) \<and>
        (int (length (veiculos_do_grupo f g ?vs7)) = lm \<longrightarrow>
           filter (\<lambda>d. dv_filial d = f \<and> dv_grupo d = g) ds' = []) \<and>
        (int (length (veiculos_do_grupo f g ?vs7)) = lm + 1 \<longrightarrow>
           (\<exists>d. filter (\<lambda>d. dv_filial d = f \<and> dv_grupo d = g) ds' = [d] \<and>
                qtd_veiculos d = lm + 1)))" ..
  note a' = ab'[THEN conjunct1] and b' = ab'[THEN conjunct2]
  note c' = b'[rule_format, OF lim, THEN conjunct2, THEN conjunct2, rule_format, OF l7]
  from c' obtain d where d: "filter (\<lambda>d. dv_filial d = ''RRP'' \<and> dv_grupo d = Fabrica) ds' = [d]"
    "qtd_veiculos d = 6 + 1" by (elim exE conjE)
  have 2: "map qtd_veiculos (filter (\<lambda>d. dv_filial d = ''RRP'' \<and> dv_grupo d = Fabrica) ds') = [7]"
    unfolding d(1) using d(2) by simp
  show ?thesis
    by (intro conjI exI[of _ ds] exI[of _ ds']) (rule a c a' 2)+
qed

section \<open>Properties of the group resolution\<close>














section \<open>Properties of the consolidation (scripts/pontos\_notaveis/gerar\_relatorio\_pontos\_notaveis.py)\<close>

lemma py_max_Cons: "py_max key x (y # ys) = py_max key (if key y > key x then y else x) ys"
  by (simp add: py_max_def)

lemma py_max_mem: "py_max key x xs \<in> insert x (set xs)"
  by (induction xs arbitrary: x) (auto simp: py_max_Cons, simp add: py_max_def)

lemma py_max_acc: "key x \<le> key (py_max key x xs)"
proof (induction xs arbitrary: x)
  case Nil
  then show ?case by (simp add: py_max_def)
next
  case (Cons y ys)
  show ?case
  proof (cases "key y > key x")
    case True
    with Cons.IH[of y] show ?thesis by (simp add: py_max_Cons)
  next
    case False
    with Cons.IH[of x] show ?thesis by (simp add: py_max_Cons)
  qed
qed

lemma py_max_ge_tail: "z \<in> set xs \<Longrightarrow> key z \<le> key (py_max key x xs)"
proof (induction xs arbitrary: x)
  case Nil
  then show ?case by simp
next
  case (Cons y ys)
  show ?case
  proof (cases "z = y")
    case True
    show ?thesis
    proof (cases "key y > key x")
      case True
      with py_max_acc[of key y ys] \<open>z = y\<close> show ?thesis by (simp add: py_max_Cons)
    next
      case False
      with py_max_acc[of key x ys] \<open>z = y\<close> show ?thesis by (simp add: py_max_Cons)
    qed
  next
    case False
    with Cons.prems have "z \<in> set ys" by simp
    from Cons.IH[OF this] show ?thesis by (simp add: py_max_Cons)
  qed
qed

lemma py_max_ge: "z \<in> insert x (set xs) \<Longrightarrow> key z \<le> key (py_max key x xs)"
  using py_max_acc[of key x xs] py_max_ge_tail[of z xs key x] by auto

lemma py_max_key: "key (py_max key x xs) = Max (key ` insert x (set xs))"
proof (rule sym, rule Max_eqI)
  show "finite (key ` insert x (set xs))" by simp
  show "\<And>y. y \<in> key ` insert x (set xs) \<Longrightarrow> y \<le> key (py_max key x xs)"
    using py_max_ge[of _ x xs key] by blast
  show "key (py_max key x xs) \<in> key ` insert x (set xs)"
    using py_max_mem[of key x xs] by blast
qed

lemma coletar_sequencia_eq:
  "coletar_sequencia p es =
     (takeWhile (\<lambda>e. Descricao_POI e = p) es, dropWhile (\<lambda>e. Descricao_POI e = p) es)"
  by (induction es) auto

lemma consolidar_sequencia_poi_sessao:
  assumes "length r > 1"
  shows "\<exists>c. consolidar_sequencia_poi round2 r = Some c \<and> sessao_da_sequencia round2 r c"
proof -
  from assms obtain e f fs where r: "r = e # f # fs"
    by (cases r, simp, rename_tac a as, case_tac as, auto)
  let ?u = "py_max parse_data_saida e (f # fs)"
  let ?c = "e\<lparr>Data_Saida := Data_Saida ?u, Data_Atualizacao := Data_Atualizacao ?u,
            Duracao := calcular_duracao_formatada round2 (Data_Entrada e) (Data_Saida ?u),
            Status := str_remove '' (Consolidado)'' (Status e)\<rparr>"
  have c: "consolidar_sequencia_poi round2 r = Some ?c"
    by (simp add: r consolidar_sequencia_poi_def Let_def)
  have k: "parse_data_saida ?c = Max (parse_data_saida ` set r)"
    using py_max_key[of parse_data_saida e "f # fs"] by (simp add: r parse_data_saida_def)
  have m: "Data_Saida ?c \<in> Data_Saida ` set r"
    using py_max_mem[of parse_data_saida e "f # fs"] by (auto simp: r)
  have "sessao_da_sequencia round2 r ?c"
    unfolding sessao_da_sequencia_def using k m by (simp add: r)
  with c show ?thesis by blast
qed

lemma consolidar_sequencias_Cons:
  "consolidar_sequencias round2 (e # es) =
     (if takeWhile (\<lambda>x. Descricao_POI x = Descricao_POI e) es \<noteq> []
      then (case consolidar_sequencia_poi round2
                   (e # takeWhile (\<lambda>x. Descricao_POI x = Descricao_POI e) es) of
              None \<Rightarrow> [] | Some c \<Rightarrow> [c])
      else [e])
     @ consolidar_sequencias round2 (dropWhile (\<lambda>x. Descricao_POI x = Descricao_POI e) es)"
  by (simp add: coletar_sequencia_eq Let_def)

lemma dropWhile_shorter: "length (dropWhile p es) < Suc (length es)"
  using length_dropWhile_le[of p es] by (rule le_imp_less_Suc)

lemma sequencias_maximais_Nil: "sequencias_maximais [] []"
  by (simp add: sequencias_maximais_def)

lemma sequencias_maximais_concat: "sequencias_maximais es rs \<Longrightarrow> concat rs = es"
  unfolding sequencias_maximais_def by (elim conjE)

lemma sequencias_maximais_run:
  "sequencias_maximais es rs \<Longrightarrow> r \<in> set rs \<Longrightarrow> r \<noteq> [] \<and> (\<forall>e\<in>set r. Descricao_POI e = Descricao_POI (hd r))"
  unfolding sequencias_maximais_def by (elim conjE) (erule bspec)

lemma sequencias_maximais_next:
  "sequencias_maximais es rs \<Longrightarrow> Suc i < length rs \<Longrightarrow>
     Descricao_POI (hd (rs ! i)) \<noteq> Descricao_POI (hd (rs ! Suc i))"
  unfolding sequencias_maximais_def by (elim conjE) (erule allE, erule mp)

lemma hd_concat_ne: "r1 \<noteq> [] \<Longrightarrow> hd (concat (r1 # rest)) = hd r1"
  by simp

lemma sequencias_maximais_hd:
  assumes m: "sequencias_maximais (dropWhile p es) rs" and n: "rs \<noteq> []"
  shows "\<not> p (hd (hd rs))"
proof -
  from n obtain r1 rest where r1: "rs = r1 # rest" by (cases rs) simp_all
  have "r1 \<in> set rs" by (simp add: r1)
  from sequencias_maximais_run[OF m this] have r1ne: "r1 \<noteq> []" by (rule conjunct1)
  have cc: "concat (r1 # rest) = dropWhile p es"
    using sequencias_maximais_concat[OF m] by (simp only: r1)
  have h1: "hd (dropWhile p es) = hd r1"
    using hd_concat_ne[OF r1ne, of rest] by (simp only: cc)
  have "dropWhile p es \<noteq> []"
  proof
    assume "dropWhile p es = []"
    with cc have "concat (r1 # rest) = []" by simp
    with r1ne show False by simp
  qed
  from hd_dropWhile[OF this] have "\<not> p (hd (dropWhile p es))" .
  then show ?thesis unfolding h1 r1 by simp
qed


lemma sequencias_maximais_step:
  fixes e :: evento_processado
  defines "p \<equiv> \<lambda>x. Descricao_POI x = Descricao_POI e"
  assumes m: "sequencias_maximais (dropWhile p es) rs"
  shows "sequencias_maximais (e # es) ((e # takeWhile p es) # rs)"
  unfolding sequencias_maximais_def
proof (intro conjI ballI allI impI)
  show "concat ((e # takeWhile p es) # rs) = e # es"
    by (simp add: sequencias_maximais_concat[OF m])
next
  fix r assume "r \<in> set ((e # takeWhile p es) # rs)"
  then consider "r = e # takeWhile p es" | "r \<in> set rs" by auto
  then show "r \<noteq> []"
  proof cases
    case 1 then show ?thesis by simp
  next
    case 2 from sequencias_maximais_run[OF m this] show ?thesis by (rule conjunct1)
  qed
next
  fix r x assume r: "r \<in> set ((e # takeWhile p es) # rs)" and x: "x \<in> set r"
  from r consider "r = e # takeWhile p es" | "r \<in> set rs" by auto
  then show "Descricao_POI x = Descricao_POI (hd r)"
  proof cases
    case 1
    with x have "x = e \<or> x \<in> set (takeWhile p es)" by simp
    then show ?thesis
    proof
      assume "x = e" then show ?thesis by (simp add: 1)
    next
      assume "x \<in> set (takeWhile p es)"
      then have "p x" by (rule set_takeWhileD[THEN conjunct2])
      then show ?thesis by (simp add: 1 p_def)
    qed
  next
    case 2
    from sequencias_maximais_run[OF m this, THEN conjunct2] x show ?thesis by (rule bspec)
  qed
next
  fix i assume i: "Suc i < length ((e # takeWhile p es) # rs)"
  show "Descricao_POI (hd (((e # takeWhile p es) # rs) ! i)) \<noteq>
        Descricao_POI (hd (((e # takeWhile p es) # rs) ! Suc i))"
  proof (cases i)
    case 0
    with i have n: "rs \<noteq> []" by auto
    have z: "rs ! 0 = hd rs" by (rule hd_conv_nth[OF n, symmetric])
    from sequencias_maximais_hd[OF m n] have "Descricao_POI (hd (hd rs)) \<noteq> Descricao_POI e"
      by (simp add: p_def)
    then show ?thesis by (simp add: 0 z)
  next
    case (Suc j)
    with i have "Suc j < length rs" by simp
    from sequencias_maximais_next[OF m this] show ?thesis by (simp add: Suc)
  qed
qed

lemma consolidar_sequencias_step:
  "\<exists>c. consolidar_sequencias round2 (e # es) =
         c # consolidar_sequencias round2 (dropWhile (\<lambda>x. Descricao_POI x = Descricao_POI e) es) \<and>
       sessao_da_sequencia round2 (e # takeWhile (\<lambda>x. Descricao_POI x = Descricao_POI e) es) c"
proof (cases "takeWhile (\<lambda>x. Descricao_POI x = Descricao_POI e) es = []")
  case True
  have "sessao_da_sequencia round2 [e] e" by (simp add: sessao_da_sequencia_def)
  then show ?thesis
    unfolding consolidar_sequencias_Cons True by simp
next
  case False
  then have "length (e # takeWhile (\<lambda>x. Descricao_POI x = Descricao_POI e) es) > 1"
    by simp
  from consolidar_sequencia_poi_sessao[OF this, of round2]
  obtain c where c: "consolidar_sequencia_poi round2
        (e # takeWhile (\<lambda>x. Descricao_POI x = Descricao_POI e) es) = Some c \<and>
      sessao_da_sequencia round2 (e # takeWhile (\<lambda>x. Descricao_POI x = Descricao_POI e) es) c" ..
  show ?thesis
    unfolding consolidar_sequencias_Cons c[THEN conjunct1] using False c[THEN conjunct2]
    by simp
qed

lemma consolidar_sequencias_runs:
  "\<exists>rs. sequencias_maximais es rs \<and>
        list_all2 (sessao_da_sequencia round2) rs (consolidar_sequencias round2 es)"
proof (induction "length es" arbitrary: es rule: less_induct)
  case less
  show ?case
  proof (cases es)
    case Nil
    show ?thesis unfolding Nil
      using sequencias_maximais_Nil by (intro exI[of _ "[]"]) simp
  next
    case (Cons e es')
    let ?p = "\<lambda>x. Descricao_POI x = Descricao_POI e"
    have "length (dropWhile ?p es') < length es"
      unfolding Cons list.size using dropWhile_shorter[of ?p es'] by simp
    from less[OF this] obtain rs' where rs': "sequencias_maximais (dropWhile ?p es') rs' \<and>
      list_all2 (sessao_da_sequencia round2) rs' (consolidar_sequencias round2 (dropWhile ?p es'))" ..
    from consolidar_sequencias_step[of round2 e es'] obtain c where
      c: "consolidar_sequencias round2 (e # es') = c # consolidar_sequencias round2 (dropWhile ?p es') \<and>
          sessao_da_sequencia round2 (e # takeWhile ?p es') c" ..
    have a: "sequencias_maximais (e # es') ((e # takeWhile ?p es') # rs')"
      by (rule sequencias_maximais_step[OF rs'[THEN conjunct1]])
    have b: "list_all2 (sessao_da_sequencia round2) ((e # takeWhile ?p es') # rs')
               (consolidar_sequencias round2 (e # es'))"
      unfolding c[THEN conjunct1]
      by (rule list_all2_Cons[THEN iffD2, OF conjI[OF c[THEN conjunct2] rs'[THEN conjunct2]]])
    show ?thesis unfolding Cons
      by (rule exI[of _ "(e # takeWhile ?p es') # rs'"], rule conjI[OF a b])
  qed
qed

lemma grupos_as_map:
  "distinct (map fst gs) \<Longrightarrow> gs = map (\<lambda>k. (k, grupo_lista gs k)) (map fst gs)"
proof (induction gs)
  case Nil
  then show ?case by simp
next
  case (Cons a gs)
  obtain k ws where a: "a = (k, ws)" by (cases a)
  from Cons.prems have k: "k \<notin> fst ` set gs" and d: "distinct (map fst gs)" by (simp_all add: a)
  have "map (\<lambda>k'. (k', grupo_lista ((k, ws) # gs) k')) (map fst gs)
        = map (\<lambda>k'. (k', grupo_lista gs k')) (map fst gs)"
  proof (rule map_cong[OF refl])
    fix x assume "x \<in> set (map fst gs)"
    with k have "x \<noteq> k" by auto
    then show "(x, grupo_lista ((k, ws) # gs) x) = (x, grupo_lista gs x)"
      by (simp add: grupo_lista_def)
  qed
  with Cons.IH[OF d] show ?case by (simp add: a grupo_lista_def)
qed

lemma foldl_grupos_as_map:
  fixes kf :: "'a \<Rightarrow> string"
  defines "gs \<equiv> \<lambda>vs. foldl (\<lambda>grupos v. grupos_append grupos (kf v) v) [] vs"
  shows "distinct (map fst (gs vs))" "set (map fst (gs vs)) = kf ` set vs"
    "gs vs = map (\<lambda>k. (k, filter (\<lambda>v. kf v = k) vs)) (map fst (gs vs))"
proof -
  have f: "distinct (map fst (gs vs)) \<and> fst ` set (gs vs) = fst ` set [] \<union> kf ` set vs \<and>
           grupo_lista (gs vs) k = grupo_lista [] k @ filter (\<lambda>v. kf v = k) vs" for k
    using foldl_grupos[of "[]" kf vs k] unfolding gs_def by simp
  show d: "distinct (map fst (gs vs))" using f by (rule conjunct1)
  show "set (map fst (gs vs)) = kf ` set vs" using f[THEN conjunct2, THEN conjunct1] by simp
  have l: "grupo_lista (gs vs) k = filter (\<lambda>v. kf v = k) vs" for k
    using f[of k, THEN conjunct2, THEN conjunct2] by (simp add: grupo_lista_def)
  show "gs vs = map (\<lambda>k. (k, filter (\<lambda>v. kf v = k) vs)) (map fst (gs vs))"
    using grupos_as_map[OF d] by (simp only: l)
qed

lemma consolidar_eventos_consecutivos_por_veiculo:
  "consolidar_eventos_consecutivos round2 evs =
     concat (map (\<lambda>placa. consolidar_sequencias round2 (eventos_do_veiculo placa evs))
               (map fst (eventos_por_veiculo evs)))"
proof -
  define ks where "ks = map fst (eventos_por_veiculo evs)"
  have e: "eventos_por_veiculo evs = map (\<lambda>k. (k, filter (\<lambda>v. Placa_Veiculo v = k) evs)) ks"
    using foldl_grupos_as_map(3)[of Placa_Veiculo evs] unfolding eventos_por_veiculo_def ks_def .
  have "consolidar_eventos_consecutivos round2 evs =
     concat (map (\<lambda>placa. consolidar_sequencias round2 (eventos_do_veiculo placa evs)) ks)"
    unfolding consolidar_eventos_consecutivos_def e
    by (simp add: eventos_do_veiculo_def comp_def)
  then show ?thesis unfolding ks_def .
qed

lemma sorted_hd_Min:
  "sorted (map key xs) \<Longrightarrow> xs \<noteq> [] \<Longrightarrow> key (hd xs) = Min (key ` set xs)"
proof (cases xs)
  case Nil
  assume "xs \<noteq> []" with Nil show ?thesis by simp
next
  case (Cons x ys)
  assume "sorted (map key xs)"
  then have le: "\<forall>y\<in>set ys. key x \<le> key y" by (simp add: Cons)
  have "Min (key ` set xs) = key x"
  proof (rule Min_eqI)
    show "finite (key ` set xs)" by simp
    show "key x \<in> key ` set xs" by (simp add: Cons)
    fix y assume "y \<in> key ` set xs"
    then show "key x \<le> y" using le by (auto simp: Cons)
  qed
  then show ?thesis by (simp add: Cons)
qed

lemma consolidar_sequencias_mesmo_poi:
  assumes same: "\<forall>x\<in>set xs. Descricao_POI x = q" and len: "length xs > 1"
  shows "\<exists>c. consolidar_sequencias round2 xs = [c] \<and> sessao_da_sequencia round2 xs c"
proof -
  from len obtain e es where xs: "xs = e # es" by (cases xs) simp_all
  from same have q: "Descricao_POI e = q" and all: "\<forall>x\<in>set es. Descricao_POI x = Descricao_POI e"
    by (simp_all add: xs)
  have tw: "takeWhile (\<lambda>x. Descricao_POI x = Descricao_POI e) es = es"
    using all by (simp add: takeWhile_eq_all_conv)
  have dw: "dropWhile (\<lambda>x. Descricao_POI x = Descricao_POI e) es = []"
    using all by simp
  from consolidar_sequencias_step[of round2 e es]
  show ?thesis unfolding tw dw xs by simp
qed

lemma tres_eventos:
  assumes p: "Placa_Veiculo e2 = Placa_Veiculo e1" "Placa_Veiculo e3 = Placa_Veiculo e1"
    and q: "Descricao_POI e2 = Descricao_POI e1" "Descricao_POI e3 = Descricao_POI e1"
  shows "\<exists>c. consolidar_eventos_consecutivos round2 [e1, e2, e3] = [c] \<and>
           Data_Entrada c \<in> Data_Entrada ` {e1, e2, e3} \<and>
           parse_data_entrada c = Min (parse_data_entrada ` {e1, e2, e3}) \<and>
           Data_Saida c \<in> Data_Saida ` {e1, e2, e3} \<and>
           parse_data_saida c = Max (parse_data_saida ` {e1, e2, e3})"
proof -
  define xs where "xs = sort_key parse_data_entrada [e1, e2, e3]"
  have s: "set xs = {e1, e2, e3}" unfolding xs_def by (simp only: set_sort) simp
  have l: "length xs = 3" unfolding xs_def by (simp only: length_sort) simp
  have srt: "sorted (map parse_data_entrada xs)" unfolding xs_def by (rule sorted_sort_key)
  have ne: "xs \<noteq> []" using l by auto
  have g: "eventos_por_veiculo [e1, e2, e3] = [(Placa_Veiculo e1, [e1, e2, e3])]"
    by (simp add: eventos_por_veiculo_def p)
  have f: "consolidar_eventos_consecutivos round2 [e1, e2, e3] = consolidar_sequencias round2 xs"
    unfolding consolidar_eventos_consecutivos_def g xs_def by simp
  have same: "\<forall>x\<in>set xs. Descricao_POI x = Descricao_POI e1" unfolding s using q by simp
  have "length xs > 1" using l by simp
  from consolidar_sequencias_mesmo_poi[OF same this, of round2]
  obtain c where c: "consolidar_sequencias round2 xs = [c] \<and> sessao_da_sequencia round2 xs c" ..
  have l1: "length xs \<noteq> 1" using l by simp
  from c[THEN conjunct2] have ses:
    "Data_Entrada c = Data_Entrada (hd xs)" "parse_data_saida c = Max (parse_data_saida ` set xs)"
    "Data_Saida c \<in> Data_Saida ` set xs"
    unfolding sessao_da_sequencia_def using l1 by simp_all
  have h: "hd xs \<in> set xs" using ne by (rule hd_in_set)
  have 1: "Data_Entrada c \<in> Data_Entrada ` {e1, e2, e3}"
    unfolding ses(1) s[symmetric] using h by (rule imageI)
  have 2: "parse_data_entrada c = Min (parse_data_entrada ` {e1, e2, e3})"
    using sorted_hd_Min[OF srt ne] unfolding s by (simp add: parse_data_entrada_def ses(1))
  have 3: "Data_Saida c \<in> Data_Saida ` {e1, e2, e3}" using ses(3) unfolding s .
  have 4: "parse_data_saida c = Max (parse_data_saida ` {e1, e2, e3})" using ses(2) unfolding s .
  have 0: "consolidar_eventos_consecutivos round2 [e1, e2, e3] = [c]"
    unfolding f by (rule c[THEN conjunct1])
  show ?thesis by (intro exI[of _ c] conjI) (rule 0 1 2 3 4)+
qed

text \<open>
  Claim C6. The report's consolidation takes the vehicles in the order their plates first
  appear, sorts the events of each by entry (an empty or unreadable date counting as the
  earliest) and replaces them by the sessions of that sorted list. The sorted events of a
  vehicle are cut into their maximal runs of one POI name, and the output holds exactly one
  session per run, in order: the event itself for a run of one, else a session with the
  entry of the run's first event and an exit of the run whose time is the greatest of the
  run, the duration being computed from those two. In particular three events of one
  vehicle at one POI give one session, whose entry is the earliest of the three entries and
  whose exit is the latest of the three exits.
\<close>
theorem consecutive_runs_consolidated:
  "(\<exists>placas. distinct placas \<and> set placas = Placa_Veiculo ` set evs \<and>
       consolidar_eventos_consecutivos round2 evs =
         concat (map (\<lambda>placa. consolidar_sequencias round2 (eventos_do_veiculo placa evs)) placas)) \<and>
   sorted (map parse_data_entrada (eventos_do_veiculo placa evs)) \<and>
   (\<exists>rs. sequencias_maximais (eventos_do_veiculo placa evs) rs \<and>
         list_all2 (sessao_da_sequencia round2) rs
           (consolidar_sequencias round2 (eventos_do_veiculo placa evs))) \<and>
   (Placa_Veiculo e2 = Placa_Veiculo e1 \<and> Placa_Veiculo e3 = Placa_Veiculo e1 \<and>
    Descricao_POI e2 = Descricao_POI e1 \<and> Descricao_POI e3 = Descricao_POI e1 \<longrightarrow>
      (\<exists>c. consolidar_eventos_consecutivos round2 [e1, e2, e3] = [c] \<and>
           Data_Entrada c \<in> Data_Entrada ` {e1, e2, e3} \<and>
           parse_data_entrada c = Min (parse_data_entrada ` {e1, e2, e3}) \<and>
           Data_Saida c \<in> Data_Saida ` {e1, e2, e3} \<and>
           parse_data_saida c = Max (parse_data_saida ` {e1, e2, e3})))"
proof (intro conjI impI)
  show "\<exists>placas. distinct placas \<and> set placas = Placa_Veiculo ` set evs \<and>
       consolidar_eventos_consecutivos round2 evs =
         concat (map (\<lambda>placa. consolidar_sequencias round2 (eventos_do_veiculo placa evs)) placas)"
  proof (intro exI[of _ "map fst (eventos_por_veiculo evs)"] conjI)
    show "distinct (map fst (eventos_por_veiculo evs))"
      unfolding eventos_por_veiculo_def by (rule foldl_grupos_as_map(1))
    show "set (map fst (eventos_por_veiculo evs)) = Placa_Veiculo ` set evs"
      unfolding eventos_por_veiculo_def by (rule foldl_grupos_as_map(2))
    show "consolidar_eventos_consecutivos round2 evs =
         concat (map (\<lambda>placa. consolidar_sequencias round2 (eventos_do_veiculo placa evs))
                   (map fst (eventos_por_veiculo evs)))"
      by (rule consolidar_eventos_consecutivos_por_veiculo)
  qed
  show "sorted (map parse_data_entrada (eventos_do_veiculo placa evs))"
    unfolding eventos_do_veiculo_def by (rule sorted_sort_key)
  show "\<exists>rs. sequencias_maximais (eventos_do_veiculo placa evs) rs \<and>
         list_all2 (sessao_da_sequencia round2) rs
           (consolidar_sequencias round2 (eventos_do_veiculo placa evs))"
    by (rule consolidar_sequencias_runs)
next
  assume a: "Placa_Veiculo e2 = Placa_Veiculo e1 \<and> Placa_Veiculo e3 = Placa_Veiculo e1 \<and>
    Descricao_POI e2 = Descricao_POI e1 \<and> Descricao_POI e3 = Descricao_POI e1"
  show "\<exists>c. consolidar_eventos_consecutivos round2 [e1, e2, e3] = [c] \<and>
           Data_Entrada c \<in> Data_Entrada ` {e1, e2, e3} \<and>
           parse_data_entrada c = Min (parse_data_entrada ` {e1, e2, e3}) \<and>
           Data_Saida c \<in> Data_Saida ` {e1, e2, e3} \<and>
           parse_data_saida c = Max (parse_data_saida ` {e1, e2, e3})"
    by (rule tres_eventos[OF a[THEN conjunct1] a[THEN conjunct2, THEN conjunct1]
          a[THEN conjunct2, THEN conjunct2, THEN conjunct1]
          a[THEN conjunct2, THEN conjunct2, THEN conjunct2]])
qed

lemma parse_sample_data: "parse_data (sample_data h m) = 739469 * 86400 + h * 3600 + m * 60"
  by (simp add: parse_data_def sample_data_def)

lemma sample_evento_fields:
  "Placa_Veiculo (sample_evento n g a b) = ''QAB1C23''"
  "Descricao_POI (sample_evento n g a b) = n"
  "Grupo_POI (sample_evento n g a b) = g"
  "Data_Entrada (sample_evento n g a b) = a"
  "Data_Saida (sample_evento n g a b) = b"
  by (simp_all add: sample_evento_def)

theorem consecutive_runs_consolidated_witness:
  "(\<exists>c. consolidar_eventos_consecutivos sample_round2 sample_visitas = [c] \<and>
        Data_Entrada c = sample_data 8 0 \<and> Data_Saida c = sample_data 10 30) \<and>
   (\<exists>rs. sequencias_maximais (eventos_do_veiculo ''QAB1C23'' sample_visitas) rs \<and>
         list_all2 (sessao_da_sequencia sample_round2) rs
           (consolidar_sequencias sample_round2 (eventos_do_veiculo ''QAB1C23'' sample_visitas)))"
proof -
  let ?e1 = "sample_evento ''Oficina JSL'' Manutencao (sample_data 10 0) (sample_data 10 30)"
  let ?e2 = "sample_evento ''Oficina JSL'' Manutencao (sample_data 8 0) (sample_data 8 20)"
  let ?e3 = "sample_evento ''Oficina JSL'' Manutencao (sample_data 9 0) (sample_data 9 45)"
  note t = consecutive_runs_consolidated[where evs = sample_visitas and ?round2.0 = sample_round2
      and placa = "''QAB1C23''" and ?e1.0 = ?e1 and ?e2.0 = ?e2 and ?e3.0 = ?e3]
  have h: "Placa_Veiculo ?e2 = Placa_Veiculo ?e1 \<and> Placa_Veiculo ?e3 = Placa_Veiculo ?e1 \<and>
    Descricao_POI ?e2 = Descricao_POI ?e1 \<and> Descricao_POI ?e3 = Descricao_POI ?e1"
    by (simp add: sample_evento_fields)
  from t[THEN conjunct2, THEN conjunct2, THEN conjunct2, THEN mp, OF h]
  obtain c where c: "consolidar_eventos_consecutivos sample_round2 [?e1, ?e2, ?e3] = [c] \<and>
           Data_Entrada c \<in> Data_Entrada ` {?e1, ?e2, ?e3} \<and>
           parse_data_entrada c = Min (parse_data_entrada ` {?e1, ?e2, ?e3}) \<and>
           Data_Saida c \<in> Data_Saida ` {?e1, ?e2, ?e3} \<and>
           parse_data_saida c = Max (parse_data_saida ` {?e1, ?e2, ?e3})" ..
  note c1 = c[THEN conjunct1] and c2 = c[THEN conjunct2, THEN conjunct1]
    and c3 = c[THEN conjunct2, THEN conjunct2, THEN conjunct1]
    and c4 = c[THEN conjunct2, THEN conjunct2, THEN conjunct2, THEN conjunct1]
    and c5 = c[THEN conjunct2, THEN conjunct2, THEN conjunct2, THEN conjunct2]
  have mn: "parse_data (Data_Entrada c) = 739469 * 86400 + 8 * 3600 + 0 * 60"
    using c3 by (simp add: parse_data_entrada_def sample_evento_fields parse_sample_data)
  have mx: "parse_data (Data_Saida c) = 739469 * 86400 + 10 * 3600 + 30 * 60"
    using c5 by (simp add: parse_data_saida_def sample_evento_fields parse_sample_data)
  from c2 have "Data_Entrada c = sample_data 10 0 \<or> Data_Entrada c = sample_data 8 0 \<or>
      Data_Entrada c = sample_data 9 0"
    by (simp add: sample_evento_fields)
  then have en: "Data_Entrada c = sample_data 8 0"
    using mn by (auto simp: parse_sample_data)
  from c4 have "Data_Saida c = sample_data 10 30 \<or> Data_Saida c = sample_data 8 20 \<or>
      Data_Saida c = sample_data 9 45"
    by (simp add: sample_evento_fields)
  then have ex: "Data_Saida c = sample_data 10 30"
    using mx by (auto simp: parse_sample_data)
  have a: "consolidar_eventos_consecutivos sample_round2 sample_visitas = [c]"
    unfolding sample_visitas_def by (rule c1)
  have "\<exists>c. consolidar_eventos_consecutivos sample_round2 sample_visitas = [c] \<and>
        Data_Entrada c = sample_data 8 0 \<and> Data_Saida c = sample_data 10 30"
    by (intro exI[of _ c] conjI) (rule a en ex)+
  then show ?thesis
    using t[THEN conjunct2, THEN conjunct2, THEN conjunct1] by (rule conjI)
qed

end
